theory Spec2Isabelle
  imports Main "HOL-Library.Sublist"
begin

section \<open>Strings and numbers as the generator uses them\<close>

text \<open>
  The generator builds C++ text from \<open>std::string\<close>, \<open>StringRef\<close> and \<open>Twine\<close> values.
  They are byte strings, modelled as \<open>string\<close> (a \<open>char list\<close>). Counts of operands and
  results are C++ \<open>int\<close>s obtained from container sizes; they are never negative, and the
  model takes them as \<open>nat\<close>.
\<close>

text \<open>The character of a decimal digit \<open>d < 10\<close>.\<close>

definition digit :: "nat \<Rightarrow> char" where
  "digit d = ''0123456789'' ! d"

text \<open>Decimal rendering of a count, as \<open>Twine(int)\<close> and \<open>std::to_string(int)\<close> produce it.\<close>

function to_string :: "nat \<Rightarrow> string" where
  "to_string n = (if n < 10 then [digit n] else to_string (n div 10) @ [digit (n mod 10)])"
  by pat_completeness auto
termination
  by (relation "measure id") auto

declare to_string.simps [simp del]

text \<open>
  \<open>StringRef::split(sep)\<close> for a one-character separator: the text before the first
  occurrence and the text after it; when the separator does not occur, the whole string
  and the empty string.
\<close>

fun str_split :: "string \<Rightarrow> char \<Rightarrow> string \<times> string" where
  "str_split [] c = ([], [])"
| "str_split (x # xs) c =
     (if x = c then ([], xs)
      else (case str_split xs c of (l, r) \<Rightarrow> (x # l, r)))"

text \<open>\<open>StringRef::ltrim(chars)\<close> and \<open>StringRef::rtrim(chars)\<close>.\<close>

definition ltrim :: "string \<Rightarrow> string \<Rightarrow> string" where
  "ltrim chars s = dropWhile (\<lambda>c. c \<in> set chars) s"

definition rtrim :: "string \<Rightarrow> string \<Rightarrow> string" where
  "rtrim chars s = rev (dropWhile (\<lambda>c. c \<in> set chars) (rev s))"

text \<open>The default character set of \<open>ltrim()\<close> is \<open>" \t\n\v\f\r"\<close>.\<close>

definition default_trim_chars :: string where
  "default_trim_chars = [CHR '' '', CHR 0x09, CHR 0x0A, CHR 0x0B, CHR 0x0C, CHR 0x0D]"

text \<open>The set given to \<open>rtrim\<close> by the parser and printer passes: \<open>" \t\v\f\r"\<close>.\<close>

definition rtrim_chars :: string where
  "rtrim_chars = [CHR '' '', CHR 0x09, CHR 0x0B, CHR 0x0C, CHR 0x0D]"

text \<open>\<open>StringRef::endswith\<close>: the suffix fits and the last characters are equal to it.\<close>

definition endswith :: "string \<Rightarrow> string \<Rightarrow> bool" where
  "endswith s suf =
     (length s \<ge> length suf \<and> drop (length s - length suf) s = suf)"

section \<open>The operation specification\<close>

text \<open>
  The wrapper classes \<open>Operator\<close>, \<open>Attribute\<close>, \<open>TypeConstraint\<close>, \<open>OpTrait\<close> and the
  TableGen \<open>Record\<close> are declared outside the generator. They are taken as plain data: a
  record field stands for the accessor the generator calls.
\<close>

record TypeConstraint =
  isVariadic :: bool
  tcDescription :: string
  tcPredicate :: "string option"
    \<comment> \<open>\<open>None\<close>: no predicate; \<open>Some t\<close>: the condition template \<open>t\<close>\<close>

record NamedTypeConstraint =
  name :: string
  constraint :: TypeConstraint

record Attribute =
  storageType :: string
  isDerivedAttr :: bool
  isOptional :: bool
  isTypeAttr :: bool
  hasDefaultValueInitializer :: bool
  attrPredicate :: "string option"
    \<comment> \<open>\<open>None\<close>: null predicate; \<open>Some c\<close>: its condition \<open>c\<close>\<close>
  attrDescription :: string

record NamedAttribute =
  attrName :: string
  attr :: Attribute

datatype OpTrait =
    NativeOpTrait string
  | PredOpTrait string string
    \<comment> \<open>a native trait's identifier; a predicate trait's template and description\<close>

text \<open>What \<open>op.getArg(i)\<close> holds: a pointer to an operand or to an attribute.\<close>

datatype Argument = ArgOperand | ArgAttribute

record Operator =
  operationName :: string
  cppClassName :: string
  arguments :: "Argument list"
  operands :: "NamedTypeConstraint list"
  results :: "NamedTypeConstraint list"
  attributes :: "NamedAttribute list"
  opTraits :: "OpTrait list"

text \<open>A value of a field of the TableGen record of the operation.\<close>

datatype Init = UnsetInit | StringInit string | CodeInit string

record OpBuilder =
  params :: string
  builderBody :: string

record Record =
  builders :: "OpBuilder list option"
  parser :: Init
  printer :: Init
  verifier :: Init

datatype error =
    FatalError string
  | AssertionFailure string
  | OutOfRange

definition getNumArgs :: "Operator \<Rightarrow> nat" where
  "getNumArgs op = length (arguments op)"

definition getNumOperands :: "Operator \<Rightarrow> nat" where
  "getNumOperands op = length (operands op)"

definition getNumResults :: "Operator \<Rightarrow> nat" where
  "getNumResults op = length (results op)"

text \<open>Indexed accessors; an index outside the container is an error of the model.\<close>

definition getOperand :: "Operator \<Rightarrow> nat \<Rightarrow> error + NamedTypeConstraint" where
  "getOperand op i =
     (if i < length (operands op) then Inr (operands op ! i) else Inl OutOfRange)"

definition getAttribute :: "Operator \<Rightarrow> nat \<Rightarrow> error + NamedAttribute" where
  "getAttribute op i =
     (if i < length (attributes op) then Inr (attributes op ! i) else Inl OutOfRange)"

text \<open>
  Modelled from the spec: \<open>Operator::hasVariadicOperand\<close> is missing from the sources at
  hand. The specification allows at most one variadic operand, which must be the last
  declared one; so the operation has a variadic operand when its last one is variadic.
\<close>

definition hasVariadicOperand :: "Operator \<Rightarrow> bool" where
  "hasVariadicOperand op =
     (operands op \<noteq> [] \<and> isVariadic (constraint (last (operands op))))"

text \<open>
  Modelled from the spec: \<open>Operator::hasVariadicResult\<close> is missing from the sources at
  hand. The results follow the convention of the operands: the operation has a variadic
  result when its last result is variadic.
\<close>

definition hasVariadicResult :: "Operator \<Rightarrow> bool" where
  "hasVariadicResult op =
     (results op \<noteq> [] \<and> isVariadic (constraint (last (results op))))"

text \<open>
  Modelled from the spec: \<open>Operator::hasTrait\<close> is missing from the sources at hand. An
  operation requests a way to deduce its result types by declaring the trait of that
  name; the traits with an identifier are the native ones.
\<close>

definition hasTrait :: "Operator \<Rightarrow> string \<Rightarrow> bool" where
  "hasTrait op t = (NativeOpTrait t \<in> set (opTraits op))"

fun isPredOpTrait :: "OpTrait \<Rightarrow> bool" where
  "isPredOpTrait (PredOpTrait p d) = True"
| "isPredOpTrait (NativeOpTrait t) = False"

text \<open>
  Modelled from the spec: \<open>Operator::getNumPredOpTraits\<close> is missing from the sources at
  hand. It counts the predicate traits attached to the operation.
\<close>

definition getNumPredOpTraits :: "Operator \<Rightarrow> nat" where
  "getNumPredOpTraits op = length (filter isPredOpTrait (opTraits op))"

definition tblgenNamePrefix :: string where
  "tblgenNamePrefix = ''tblgen_''"

definition generatedArgName :: string where
  "generatedArgName = ''tblgen_arg''"

definition builderOpState :: string where
  "builderOpState = ''tblgen_state''"

definition getArgumentName :: "Operator \<Rightarrow> nat \<Rightarrow> error + string" where
  "getArgumentName op index =
     (case getOperand op index of
        Inl e \<Rightarrow> Inl e
      | Inr operand \<Rightarrow>
          Inr (if name operand \<noteq> [] then name operand
               else generatedArgName @ ''_'' @ to_string index))"

section \<open>Classes for C++ code emission\<close>

record OpMethodSignature =
  returnType :: string
  methodName :: string
  parameters :: string

record OpMethodBody =
  isEffective :: bool
  body :: string

datatype Property = MP_None | MP_Static

record OpMethod =
  properties :: Property
  isDeclOnly :: bool
  methodSignature :: OpMethodSignature
  methodBody :: OpMethodBody

record OpClass =
  className :: string
  traits :: "string list"
  methods :: "OpMethod list"

text \<open>The constructor of \<open>OpMethod\<close>: the body is empty and records text unless \<open>declOnly\<close>.\<close>

definition OpMethod_new :: "string \<Rightarrow> string \<Rightarrow> string \<Rightarrow> Property \<Rightarrow> bool \<Rightarrow> OpMethod" where
  "OpMethod_new retType nm ps property declOnly =
     \<lparr>properties = property, isDeclOnly = declOnly,
      methodSignature = \<lparr>returnType = retType, methodName = nm, parameters = ps\<rparr>,
      methodBody = \<lparr>isEffective = (\<not> declOnly), body = []\<rparr>\<rparr>"

text \<open>
  \<open>OpMethodBody::operator<<\<close>, applied through \<open>method.body()\<close>: the content is appended
  when the body is effective, and dropped otherwise. An \<open>int\<close> is streamed as
  \<open>to_string\<close> of it.
\<close>

definition stream :: "OpMethod \<Rightarrow> string \<Rightarrow> OpMethod" where
  "stream m content =
     (if isEffective (methodBody m)
      then m\<lparr>methodBody := (methodBody m)\<lparr>body := body (methodBody m) @ content\<rparr>\<rparr>
      else m)"

text \<open>
  \<open>OpClass::newMethod\<close> appends a method and hands out a reference to it, through which
  the pass then streams the body. The model streams into the method value first and
  appends the finished method; no other method is added in between, so the class reached
  is the same.
\<close>

definition newMethod :: "OpClass \<Rightarrow> OpMethod \<Rightarrow> OpClass" where
  "newMethod cls m = cls\<lparr>methods := methods cls @ [m]\<rparr>"

text \<open>\<open>OpClass::addTrait\<close>: prefixes \<open>OpTrait::\<close> and appends.\<close>

definition addTrait :: "OpClass \<Rightarrow> string \<Rightarrow> OpClass" where
  "addTrait cls trait = cls\<lparr>traits := traits cls @ [''OpTrait::'' @ trait]\<rparr>"

subsection \<open>Rendering a method definition\<close>

definition endsWithRefOrPtr :: "string \<Rightarrow> bool" where
  "endsWithRefOrPtr type = (endswith type ''&'' \<or> endswith type ''*'')"

text \<open>
  The loop of the lambda \<open>removeParamDefaultValue\<close> in \<open>OpMethodSignature::writeDefTo\<close>,
  on the remaining parameter text and the result so far.
\<close>

function removeParamDefaultValueLoop :: "string \<Rightarrow> string \<Rightarrow> string" where
  "removeParamDefaultValueLoop ps result =
     (if ps = [] then result
      else
        let parts = str_split ps (CHR ''='');
            result1 = result @ (if result = [] then [] else '', '');
            result2 = result1 @ fst parts
        in removeParamDefaultValueLoop (snd (str_split (snd parts) (CHR '',''))) result2)"
  by pat_completeness auto
termination
proof (relation "measure (\<lambda>(ps, result). length ps)")
  show "wf (measure (\<lambda>(ps, result). length ps))" by simp
next
  fix ps result :: string and parts result1 result2
  assume ne: "ps \<noteq> []" and parts: "parts = str_split ps (CHR ''='')"
  have le: "length (snd (str_split s c)) \<le> length s" for s c
    by (induction s) (auto split: prod.splits)
  have lt: "length (snd (str_split s c)) < length s" if "s \<noteq> []" for s c
  proof (cases s)
    case Nil
    with that show ?thesis by simp
  next
    case (Cons x xs)
    with le[of xs c] show ?thesis by (auto split: prod.splits)
  qed
  have "length (snd (str_split (snd parts) (CHR '',''))) \<le> length (snd parts)"
    by (rule le)
  also have "\<dots> < length ps"
    unfolding parts using ne by (rule lt)
  finally show "((snd (str_split (snd parts) (CHR '','')), result2), (ps, result))
      \<in> measure (\<lambda>(ps, result). length ps)"
    by simp
qed

declare removeParamDefaultValueLoop.simps [simp del]

definition removeParamDefaultValue :: "string \<Rightarrow> string" where
  "removeParamDefaultValue ps = removeParamDefaultValueLoop ps []"

text \<open>\<open>OpMethodSignature::writeDefTo\<close>: the text appended to the stream \<open>os\<close>.\<close>

definition OpMethodSignature_writeDefTo :: "OpMethodSignature \<Rightarrow> string \<Rightarrow> string \<Rightarrow> string" where
  "OpMethodSignature_writeDefTo sig os namePrefix =
     os @ returnType sig @ (if endsWithRefOrPtr (returnType sig) then [] else '' '')
        @ namePrefix @ (if namePrefix = [] then [] else ''::'') @ methodName sig @ ''(''
        @ removeParamDefaultValue (parameters sig) @ '')''"

text \<open>\<open>OpMethodBody::writeTo\<close>: the body, ended by a newline when it has none.\<close>

definition OpMethodBody_writeTo :: "OpMethodBody \<Rightarrow> string \<Rightarrow> string" where
  "OpMethodBody_writeTo b os =
     (let os1 = os @ body b
      in if body b = [] \<or> last (body b) \<noteq> CHR 0x0A then os1 @ [CHR 0x0A] else os1)"

text \<open>\<open>OpMethod::writeDefTo\<close>.\<close>

definition OpMethod_writeDefTo :: "OpMethod \<Rightarrow> string \<Rightarrow> string \<Rightarrow> string" where
  "OpMethod_writeDefTo m os namePrefix =
     (if isDeclOnly m then os
      else
        let os1 = OpMethodSignature_writeDefTo (methodSignature m) os namePrefix;
            os2 = os1 @ '' {'' @ [CHR 0x0A];
            os3 = OpMethodBody_writeTo (methodBody m) os2
        in os3 @ ''}'')"

section \<open>The passes of the op emitter\<close>

subsection \<open>Traits\<close>

text \<open>The loop of \<open>genTraits\<close> over the declared traits: only native traits are added.\<close>

fun addNativeTraits :: "OpClass \<Rightarrow> OpTrait list \<Rightarrow> OpClass" where
  "addNativeTraits cls [] = cls"
| "addNativeTraits cls (NativeOpTrait t # ts) = addNativeTraits (addTrait cls t) ts"
| "addNativeTraits cls (PredOpTrait p d # ts) = addNativeTraits cls ts"

definition genTraits :: "Operator \<Rightarrow> OpClass \<Rightarrow> OpClass" where
  "genTraits op opClass =
    (let numResults = getNumResults op;
         hasVariadicRes = hasVariadicResult op;
         c1 = (if hasVariadicRes then
                 (if numResults = 1 then addTrait opClass ''VariadicResults''
                  else addTrait opClass
                         (''AtLeastNResults<'' @ to_string (numResults - 1) @ ''>::Impl''))
               else
                 (if numResults = 0 then addTrait opClass ''ZeroResult''
                  else if numResults = 1 then addTrait opClass ''OneResult''
                  else addTrait opClass
                         (''NResults<'' @ to_string numResults @ ''>::Impl'')));
         c2 = addNativeTraits c1 (opTraits op);
         numOperands = getNumOperands op;
         hasVariadicOpd = hasVariadicOperand op
     in if hasVariadicOpd then
          (if numOperands = 1 then addTrait c2 ''VariadicOperands''
           else addTrait c2
                  (''AtLeastNOperands<'' @ to_string (numOperands - 1) @ ''>::Impl''))
        else addTrait c2 (''NOperands<'' @ to_string numOperands @ ''>::Impl''))"

subsection \<open>Getters for named operands\<close>

text \<open>
  The body of the getter of a variadic operand: the raw string \<open>code\<close> with the index
  put in place of each \<open>{0}\<close> by \<open>formatv\<close>.
\<close>

definition variadicGetterCode :: "nat \<Rightarrow> string" where
  "variadicGetterCode i =
     [CHR 0x0A] @ ''        assert(getOperation()->getNumOperands() >= '' @ to_string i
       @ '');'' @ [CHR 0x0A]
       @ ''        return {std::next(operand_begin(), '' @ to_string i
       @ ''), operand_end()};'' @ [CHR 0x0A] @ ''      ''"

text \<open>
  The loop of \<open>genNamedOperandGetters\<close>, at index \<open>i\<close> of \<open>e\<close> operands, on the operands
  from \<open>i\<close> on. The \<open>assert\<close> of the source is a branch of the model.
\<close>

fun namedOperandGettersLoop ::
  "nat \<Rightarrow> nat \<Rightarrow> NamedTypeConstraint list \<Rightarrow> OpClass \<Rightarrow> error + OpClass" where
  "namedOperandGettersLoop i e [] opClass = Inr opClass"
| "namedOperandGettersLoop i e (operand # rest) opClass =
     (if name operand = [] then namedOperandGettersLoop (Suc i) e rest opClass
      else if \<not> isVariadic (constraint operand) then
        namedOperandGettersLoop (Suc i) e rest
          (newMethod opClass
             (stream (stream (stream
                (OpMethod_new ''Value *'' (name operand) [] MP_None False)
                ''  return this->getOperation()->getOperand('') (to_string i))
                ('');'' @ [CHR 0x0A])))
      else if i + 1 \<noteq> e then
        Inl (AssertionFailure ''only the last operand can be variadic'')
      else
        namedOperandGettersLoop (Suc i) e rest
          (newMethod opClass
             (stream (OpMethod_new ''Operation::operand_range'' (name operand) [] MP_None False)
                (variadicGetterCode i))))"

definition genNamedOperandGetters :: "Operator \<Rightarrow> OpClass \<Rightarrow> error + OpClass" where
  "genNamedOperandGetters op opClass =
     namedOperandGettersLoop 0 (getNumOperands op) (operands op) opClass"

subsection \<open>Parser and printer\<close>

definition hasStringAttribute :: "Init \<Rightarrow> bool" where
  "hasStringAttribute valueInit =
     (case valueInit of CodeInit v \<Rightarrow> True | StringInit v \<Rightarrow> True | UnsetInit \<Rightarrow> False)"

text \<open>\<open>getValueAsString\<close> on a field that holds a code or a string value.\<close>

definition getValueAsString :: "Init \<Rightarrow> string" where
  "getValueAsString valueInit =
     (case valueInit of CodeInit v \<Rightarrow> v | StringInit v \<Rightarrow> v | UnsetInit \<Rightarrow> [])"

definition genParser :: "Record \<Rightarrow> OpClass \<Rightarrow> OpClass" where
  "genParser rcd opClass =
     (if \<not> hasStringAttribute (parser rcd) then opClass
      else
        let method = OpMethod_new ''bool'' ''parse''
                       ''OpAsmParser *parser, OperationState *result'' MP_Static False;
            parserText = rtrim rtrim_chars (ltrim default_trim_chars (getValueAsString (parser rcd)))
        in newMethod opClass (stream (stream method ''  '') parserText))"

definition genPrinter :: "Record \<Rightarrow> OpClass \<Rightarrow> OpClass" where
  "genPrinter rcd opClass =
     (case printer rcd of
        CodeInit v \<Rightarrow>
          (let method = OpMethod_new ''void'' ''print'' ''OpAsmPrinter *p'' MP_None False;
               printerText = rtrim rtrim_chars (ltrim default_trim_chars v)
           in newMethod opClass (stream (stream method ''  '') printerText))
      | _ \<Rightarrow> opClass)"

subsection \<open>Builders\<close>

text \<open>A chain \<open>body << a << b << c\<close> streams the pieces in order.\<close>

definition streams :: "OpMethod \<Rightarrow> string list \<Rightarrow> OpMethod" where
  "streams m contents = foldl stream m contents"

text \<open>
  The first loop of \<open>genStandaloneParamBuilder\<close>: one parameter for each result type;
  \<open>i\<close> is the index of the first result of the list.
\<close>

fun resultParams ::
  "nat \<Rightarrow> NamedTypeConstraint list \<Rightarrow> string \<times> string list \<Rightarrow> string \<times> string list" where
  "resultParams i [] acc = acc"
| "resultParams i (r # rs) (paramList, resultNames) =
     (let resultName = (if name r = [] then ''resultType'' @ to_string i else name r)
      in resultParams (Suc i) rs
           (paramList
              @ (if isVariadic (constraint r) then '', ArrayRef<Type> '' else '', Type '')
              @ resultName,
            resultNames @ [resultName]))"

text \<open>
  The second loop: one parameter for each argument, counting the operands and the
  attributes met so far.
\<close>

fun argParams ::
  "Operator \<Rightarrow> Argument list \<Rightarrow> string \<times> nat \<times> nat \<Rightarrow> error + (string \<times> nat \<times> nat)" where
  "argParams op [] acc = Inr acc"
| "argParams op (ArgOperand # rest) (paramList, numOperands, numAttrs) =
     (case getOperand op numOperands of
        Inl e \<Rightarrow> Inl e
      | Inr operand \<Rightarrow>
          (case getArgumentName op numOperands of
             Inl e \<Rightarrow> Inl e
           | Inr argName \<Rightarrow>
               argParams op rest
                 (paramList
                    @ (if isVariadic (constraint operand) then '', ArrayRef<Value *> ''
                       else '', Value *'')
                    @ argName,
                  Suc numOperands, numAttrs)))"
| "argParams op (ArgAttribute # rest) (paramList, numOperands, numAttrs) =
     (case getAttribute op numAttrs of
        Inl e \<Rightarrow> Inl e
      | Inr namedAttr \<Rightarrow>
          argParams op rest
            (paramList @ '', ''
               @ (if isOptional (attr namedAttr) then ''/*optional*/'' else [])
               @ storageType (attr namedAttr) @ '' '' @ attrName namedAttr,
             numOperands, Suc numAttrs))"

text \<open>Streams \<open>", " << getArgumentName(op, i)\<close> for each index of the list.\<close>

fun streamArgumentNames :: "Operator \<Rightarrow> nat list \<Rightarrow> OpMethod \<Rightarrow> error + OpMethod" where
  "streamArgumentNames op [] m = Inr m"
| "streamArgumentNames op (i # rest) m =
     (case getArgumentName op i of
        Inl e \<Rightarrow> Inl e
      | Inr argName \<Rightarrow> streamArgumentNames op rest (streams m ['', '', argName]))"

text \<open>
  "Push all result types to the result". When the types are given as parameters,
  \<open>resultNames\<close> holds one name for each result, so \<open>hd\<close>, \<open>!\<close> and \<open>last\<close> read inside it.
\<close>

definition pushResultTypes ::
  "Operator \<Rightarrow> OpMethod \<Rightarrow> bool \<Rightarrow> bool \<Rightarrow> string list \<Rightarrow> nat \<Rightarrow> error + OpMethod" where
  \<open>pushResultTypes op method useOperandType useAttrType resultNames numOperands =
    (let numResults = getNumResults op;
         hasVariadicOpd = hasVariadicOperand op
     in if numResults > 0 then
          (if \<not> useOperandType \<and> \<not> useAttrType then
             (let hasVariadicRes = hasVariadicResult op;
                  numNonVariadicResults = numResults - (if hasVariadicRes then 1 else 0);
                  m1 = (if numNonVariadicResults > 0 then
                          stream
                            (foldl (\<lambda>m i. streams m ['', '', resultNames ! i])
                               (streams method
                                  [''  '', builderOpState, ''->addTypes({'', hd resultNames])
                               [1..<numNonVariadicResults])
                            ''});\<newline>''
                        else method);
                  m2 = (if hasVariadicRes then
                          streams m1
                            [''  '', builderOpState, ''->addTypes('', last resultNames,
                             '');\<newline>'']
                        else m1)
              in Inr m2)
           else
             (case (if useAttrType then
                      (case getAttribute op 0 of
                         Inl e \<Rightarrow> Inl e
                       | Inr namedAttr \<Rightarrow>
                           Inr (if isTypeAttr (attr namedAttr)
                                then attrName namedAttr @ ''.getValue()''
                                else attrName namedAttr @ ''.getType()''))
                    else
                      (let index = (if numOperands = 1 \<and> hasVariadicOpd then ''.front()''
                                    else [])
                       in case getArgumentName op 0 of
                            Inl e \<Rightarrow> Inl e
                          | Inr argName \<Rightarrow> Inr (argName @ index @ ''->getType()'')))
              of
                Inl e \<Rightarrow> Inl e
              | Inr resultType \<Rightarrow>
                  Inr (stream
                         (foldl (\<lambda>m i. streams m ['', '', resultType])
                            (streams method
                               [''  '', builderOpState, ''->addTypes({'', resultType])
                            [1..<numResults])
                         ''});\<newline>\<newline>'')))
        else Inr method)\<close>

text \<open>
  "Push all operands to the result". \<open>numOperands\<close> is the count made by the argument
  loop; with a variadic operand and no operand argument the source reads the operand
  at index \<open>-1\<close>, which is out of range.
\<close>

definition pushOperands :: "Operator \<Rightarrow> OpMethod \<Rightarrow> nat \<Rightarrow> error + OpMethod" where
  \<open>pushOperands op method numOperands =
    (let hasVariadicOpd = hasVariadicOperand op;
         numNonVariadicOperands = numOperands - (if hasVariadicOpd then 1 else 0)
     in case (if numNonVariadicOperands > 0 then
                (case getArgumentName op 0 of
                   Inl e \<Rightarrow> Inl e
                 | Inr argName \<Rightarrow>
                     (case streamArgumentNames op [1..<numNonVariadicOperands]
                             (streams method
                                [''  '', builderOpState, ''->addOperands({'', argName])
                      of
                        Inl e \<Rightarrow> Inl e
                      | Inr m \<Rightarrow> Inr (stream m ''});\<newline>'')))
              else Inr method)
        of
          Inl e \<Rightarrow> Inl e
        | Inr m1 \<Rightarrow>
            (if hasVariadicOpd then
               (if numOperands = 0 then Inl OutOfRange
                else
                  (case getArgumentName op (numOperands - 1) of
                     Inl e \<Rightarrow> Inl e
                   | Inr argName \<Rightarrow>
                       Inr (streams m1
                              [''  '', builderOpState, ''->addOperands('', argName,
                               '');\<newline>''])))
             else Inr m1))\<close>

text \<open>"Push all attributes to the result".\<close>

fun pushAttributes :: "NamedAttribute list \<Rightarrow> OpMethod \<Rightarrow> OpMethod" where
  \<open>pushAttributes [] m = m\<close>
| \<open>pushAttributes (namedAttr # rest) m =
     (if \<not> isDerivedAttr (attr namedAttr) then
        (let emitNotNullCheck = isOptional (attr namedAttr);
             m1 = (if emitNotNullCheck
                   then streams m [''  if ('' @ attrName namedAttr @ '') '', ''{\<newline>'']
                   else m);
             m2 = stream m1
                    (''  '' @ builderOpState @ ''->addAttribute("'' @ attrName namedAttr
                       @ ''", '' @ attrName namedAttr @ '');\<newline>'');
             m3 = (if emitNotNullCheck then stream m2 ''  }\<newline>'' else m2)
         in pushAttributes rest m3)
      else pushAttributes rest m)\<close>

definition genStandaloneParamBuilder ::
  "Operator \<Rightarrow> OpClass \<Rightarrow> bool \<Rightarrow> bool \<Rightarrow> error + OpClass" where
  \<open>genStandaloneParamBuilder op opClass useOperandType useAttrType =
    (if useOperandType \<and> useAttrType then
       Inl (FatalError
              (''Op definition has both 'SameOperandsAndResultType' and ''
                 @ [CHR 0x27] @ ''FirstAttrIsResultType' trait specified.''))
     else
       let paramList0 = ''Builder *, OperationState *'' @ builderOpState;
           (paramList1, resultNames) =
             (if \<not> useOperandType \<and> \<not> useAttrType
              then resultParams 0 (results op) (paramList0, [])
              else (paramList0, []))
       in case argParams op (arguments op) (paramList1, 0, 0) of
            Inl e \<Rightarrow> Inl e
          | Inr (paramList, numOperands, numAttrs) \<Rightarrow>
              (if numOperands + numAttrs \<noteq> getNumArgs op then
                 Inl (FatalError ''op arguments must be either operands or attributes'')
               else
                 (let method = OpMethod_new ''void'' ''build'' paramList MP_Static False
                  in (case pushResultTypes op method useOperandType useAttrType
                             resultNames numOperands of
                        Inl e \<Rightarrow> Inl e
                      | Inr m1 \<Rightarrow>
                          (case pushOperands op m1 numOperands of
                             Inl e \<Rightarrow> Inl e
                           | Inr m2 \<Rightarrow>
                               Inr (newMethod opClass
                                      (pushAttributes (attributes op) m2)))))))\<close>

text \<open>The custom builders of the \<open>builders\<close> list of the record.\<close>

fun customBuilders :: "OpBuilder list \<Rightarrow> OpClass \<Rightarrow> OpClass" where
  "customBuilders [] opClass = opClass"
| "customBuilders (builderDef # rest) opClass =
     (let hasBody = (builderBody builderDef \<noteq> []);
          method = OpMethod_new ''void'' ''build'' (params builderDef) MP_Static (\<not> hasBody);
          method1 = (if hasBody then stream method (builderBody builderDef) else method)
      in customBuilders rest (newMethod opClass method1))"

text \<open>
  The builder with aggregated parameters, part 2 of \<open>genBuilder\<close>: its signature and
  its body.
\<close>

definition aggregatedParamBuilder :: "Operator \<Rightarrow> OpMethod" where
  \<open>aggregatedParamBuilder op =
    (let numResults = getNumResults op;
         hasVariadicRes = hasVariadicResult op;
         numNonVariadicResults = numResults - (if hasVariadicRes then 1 else 0);
         numOperands = getNumOperands op;
         hasVariadicOpd = hasVariadicOperand op;
         numNonVariadicOperands = numOperands - (if hasVariadicOpd then 1 else 0);
         ps = ''Builder *, OperationState *'' @ builderOpState
                @ '', ArrayRef<Type> resultTypes, ArrayRef<Value *> operands, ''
                @ ''ArrayRef<NamedAttribute> attributes'';
         m = OpMethod_new ''void'' ''build'' ps MP_Static False;
         m1 = (if \<not> (hasVariadicRes \<and> numNonVariadicResults = 0) then
                 streams m
                   [''  assert(resultTypes.size()'',
                    (if hasVariadicRes then '' >= '' else '' == ''),
                    to_string numNonVariadicResults,
                    ''u && "mismatched number of return types");\<newline>'']
               else m);
         m2 = streams m1 [''  '', builderOpState, ''->addTypes(resultTypes);\<newline>''];
         m3 = (if \<not> (hasVariadicOpd \<and> numNonVariadicOperands = 0) then
                 streams m2
                   [''  assert(operands.size()'',
                    (if hasVariadicOpd then '' >= '' else '' == ''),
                    to_string numNonVariadicOperands,
                    ''u && "mismatched number of parameters");\<newline>'']
               else m2);
         m4 = streams m3
                [''  '', builderOpState, ''->addOperands(operands);\<newline>\<newline>''];
         m5 = streams m4
                [''  for (const auto& pair : attributes)\<newline>'', ''    '', builderOpState,
                 ''->addAttribute(pair.first, pair.second);\<newline>'']
     in m5)\<close>

definition genBuilder :: "Record \<Rightarrow> Operator \<Rightarrow> OpClass \<Rightarrow> error + OpClass" where
  "genBuilder rcd op opClass =
    (let c0 = (case builders rcd of
                 Some listInit \<Rightarrow> customBuilders listInit opClass
               | None \<Rightarrow> opClass)
     in case genStandaloneParamBuilder op c0 False False of
          Inl e \<Rightarrow> Inl e
        | Inr c1 \<Rightarrow>
            (let c2 = newMethod c1 (aggregatedParamBuilder op);
                 useOperandType = hasTrait op ''SameOperandsAndResultType'';
                 useAttrType = hasTrait op ''FirstAttrDerivedResultType''
             in if \<not> hasVariadicResult op \<and> (useOperandType \<or> useAttrType)
                then genStandaloneParamBuilder op c2 useOperandType useAttrType
                else Inr c2))"

subsection \<open>Verifier\<close>

text \<open>
  The formatting context of \<open>tgfmt\<close>: the substitutions set so far. \<open>tgfmt\<close> itself is
  defined outside the generator; the verifier pass takes it as a parameter: the
  template, the context (\<open>None\<close> for \<open>nullptr\<close>) and the positional arguments.
\<close>

record FmtContext =
  builderSubst :: "string option"
  opSubst :: "string option"
  selfSubst :: "string option"

type_synonym tgfmt = "string \<Rightarrow> FmtContext option \<Rightarrow> string list \<Rightarrow> string"

definition emptyFmtContext :: FmtContext where
  "emptyFmtContext = \<lparr>builderSubst = None, opSubst = None, selfSubst = None\<rparr>"

definition withOp :: "FmtContext \<Rightarrow> string \<Rightarrow> FmtContext" where
  "withOp fctx subst = fctx\<lparr>opSubst := Some subst\<rparr>"

definition withSelf :: "FmtContext \<Rightarrow> string \<Rightarrow> FmtContext" where
  "withSelf fctx subst = fctx\<lparr>selfSubst := Some subst\<rparr>"

text \<open>"Verify the attributes have the correct type": \<open>withSelf\<close> changes the context.\<close>

fun verifyAttributes ::
  "tgfmt \<Rightarrow> NamedAttribute list \<Rightarrow> OpMethod \<times> FmtContext \<Rightarrow> OpMethod \<times> FmtContext" where
  \<open>verifyAttributes fmt [] acc = acc\<close>
| \<open>verifyAttributes fmt (namedAttr # rest) (m, fctx) =
     (if isDerivedAttr (attr namedAttr) then verifyAttributes fmt rest (m, fctx)
      else
        let attrNm = attrName namedAttr;
            varName = tblgenNamePrefix @ attrNm;
            m1 = stream m
                   (''  auto '' @ varName @ '' = this->getAttr("'' @ attrNm
                      @ ''");\<newline>'');
            allowMissingAttr =
              (hasDefaultValueInitializer (attr namedAttr) \<or> isOptional (attr namedAttr));
            m2 = (if allowMissingAttr then streams m1 [''  if ('', varName, '') {\<newline>'']
                  else streams m1
                         [''  if (!'', varName, '') return emitOpError("requires attribute ''
                            @ [CHR 0x27],
                          attrNm, [CHR 0x27] @ ''");\<newline>  {\<newline>'']);
            (m3, fctx1) =
              (case attrPredicate (attr namedAttr) of
                 None \<Rightarrow> (m2, fctx)
               | Some cond \<Rightarrow>
                   (let fctx1 = withSelf fctx varName
                    in (stream m2
                          (fmt (''    if (!($0)) return emitOpError("attribute '$1' ''
                                  @ ''failed to satisfy constraint: $2");\<newline>'')
                             None
                             [fmt cond (Some fctx1) [], attrNm,
                              attrDescription (attr namedAttr)]),
                        fctx1)));
            m4 = stream m3 ''  }\<newline>''
        in verifyAttributes fmt rest (m4, fctx1))\<close>

text \<open>
  The lambda \<open>verifyValue\<close>, applied to the operands (\<open>isOperand\<close>) or the results from
  index \<open>index\<close> on. Variadic values are not verified.
\<close>

fun verifyValues ::
  "tgfmt \<Rightarrow> bool \<Rightarrow> nat \<Rightarrow> NamedTypeConstraint list \<Rightarrow> OpMethod \<times> FmtContext
     \<Rightarrow> OpMethod \<times> FmtContext" where
  \<open>verifyValues fmt isOperand index [] acc = acc\<close>
| \<open>verifyValues fmt isOperand index (v # rest) (m, fctx) =
     (if isVariadic (constraint v) then verifyValues fmt isOperand (Suc index) rest (m, fctx)
      else
        (case tcPredicate (constraint v) of
           None \<Rightarrow> verifyValues fmt isOperand (Suc index) rest (m, fctx)
         | Some conditionTemplate \<Rightarrow>
             (let description = tcDescription (constraint v);
                  fctx1 = withSelf fctx
                            (''this->getOperation()->get''
                               @ (if isOperand then ''Operand'' else ''Result'')
                               @ ''('' @ to_string index @ '')->getType()'');
                  m1 = streams m
                         [''  if (!('', fmt conditionTemplate (Some fctx1) [],
                          ''))\<newline>''];
                  m2 = streams m1
                         [''    return emitOpError("'',
                          (if isOperand then ''operand'' else ''result''),
                          '' #'', to_string index,
                          (if description = [] then '' type precondition failed''
                           else '' must be '' @ description),
                          ''");\<newline>'']
              in verifyValues fmt isOperand (Suc index) rest (m2, fctx1))))\<close>

text \<open>The checks of the predicate traits of the operation.\<close>

fun verifyTraits :: "tgfmt \<Rightarrow> FmtContext \<Rightarrow> OpTrait list \<Rightarrow> OpMethod \<Rightarrow> OpMethod" where
  \<open>verifyTraits fmt fctx [] m = m\<close>
| \<open>verifyTraits fmt fctx (PredOpTrait predTemplate description # rest) m =
     verifyTraits fmt fctx rest
       (stream m
          (fmt (''  if (!($0))\<newline>    return emitOpError("''
                  @ ''failed to verify that $1");\<newline>'')
             (Some fctx) [fmt predTemplate (Some fctx) [], description]))\<close>
| \<open>verifyTraits fmt fctx (NativeOpTrait t # rest) m = verifyTraits fmt fctx rest m\<close>

definition genVerifier :: "tgfmt \<Rightarrow> Record \<Rightarrow> Operator \<Rightarrow> OpClass \<Rightarrow> OpClass" where
  \<open>genVerifier fmt rcd op opClass =
    (let codeInit = (case verifier rcd of CodeInit v \<Rightarrow> Some v | _ \<Rightarrow> None);
         hasCustomVerify = (case codeInit of Some v \<Rightarrow> v \<noteq> [] | None \<Rightarrow> False)
     in if \<not> hasCustomVerify \<and> getNumArgs op = 0 \<and> getNumResults op = 0
           \<and> getNumPredOpTraits op = 0
        then opClass
        else
          (let method = OpMethod_new ''LogicalResult'' ''verify'' [] MP_None False;
               fctx = withOp emptyFmtContext ''(*this->getOperation())'';
               (m1, fctx1) = verifyAttributes fmt (attributes op) (method, fctx);
               (m2, fctx2) = verifyValues fmt True 0 (operands op) (m1, fctx1);
               (m3, fctx3) = verifyValues fmt False 0 (results op) (m2, fctx2);
               m4 = verifyTraits fmt fctx3 (opTraits op) m3;
               m5 = (if hasCustomVerify
                     then streams m4
                            [(case codeInit of Some v \<Rightarrow> v | None \<Rightarrow> []), ''\<newline>'']
                     else stream m4 ''  return mlir::success();\<newline>'')
           in newMethod opClass m5))\<close>

subsection \<open>The class of an operation\<close>

text \<open>The constructor of \<open>OpClass\<close>: no trait and no method yet.\<close>

definition OpClass_new :: "string \<Rightarrow> OpClass" where
  "OpClass_new nm = \<lparr>className = nm, traits = [], methods = []\<rparr>"

section \<open>Notions used to state the properties\<close>

text \<open>The identifiers of the native traits among the declared traits, in declaration order.\<close>

fun nativeTraitNames :: "OpTrait list \<Rightarrow> string list" where
  "nativeTraitNames [] = []"
| "nativeTraitNames (NativeOpTrait t # ts) = t # nativeTraitNames ts"
| "nativeTraitNames (PredOpTrait p d # ts) = nativeTraitNames ts"

text \<open>
  The arity traits as the trait derivation of the specification names them, from the
  count \<open>k\<close> of results or operands and whether the last one is variadic.
\<close>

definition resultArityTrait :: "nat \<Rightarrow> bool \<Rightarrow> string" where
  "resultArityTrait k variadic =
     (if variadic then
        (if k = 1 then ''VariadicResults''
         else ''AtLeastNResults<'' @ to_string (k - 1) @ ''>::Impl'')
      else if k = 0 then ''ZeroResult''
      else if k = 1 then ''OneResult''
      else ''NResults<'' @ to_string k @ ''>::Impl'')"

definition operandArityTrait :: "nat \<Rightarrow> bool \<Rightarrow> string" where
  "operandArityTrait k variadic =
     (if variadic then
        (if k = 1 then ''VariadicOperands''
         else ''AtLeastNOperands<'' @ to_string (k - 1) @ ''>::Impl'')
      else ''NOperands<'' @ to_string k @ ''>::Impl'')"

text \<open>
  Arity traits by their spelling in a trait list: the names the trait derivation puts
  there, and \<open>ZeroOperand\<close> and \<open>OneOperand\<close>.
\<close>

definition isResultArityTrait :: "string \<Rightarrow> bool" where
  "isResultArityTrait t =
     (t = ''OpTrait::ZeroResult'' \<or> t = ''OpTrait::OneResult''
      \<or> prefix ''OpTrait::NResults<'' t \<or> t = ''OpTrait::VariadicResults''
      \<or> prefix ''OpTrait::AtLeastNResults<'' t)"

definition isOperandArityTrait :: "string \<Rightarrow> bool" where
  "isOperandArityTrait t =
     (t = ''OpTrait::ZeroOperand'' \<or> t = ''OpTrait::OneOperand''
      \<or> prefix ''OpTrait::NOperands<'' t \<or> t = ''OpTrait::VariadicOperands''
      \<or> prefix ''OpTrait::AtLeastNOperands<'' t)"

text \<open>
  Parameter text seen as entries: a declarator and, for some, a default value. The text
  joins the entries with commas, a default following its declarator after \<open>=\<close>.
\<close>

type_synonym paramEntry = "string \<times> string option"

fun entryText :: "paramEntry \<Rightarrow> string" where
  "entryText (d, None) = d"
| "entryText (d, Some v) = d @ ''='' @ v"

fun paramsText :: "paramEntry list \<Rightarrow> string" where
  "paramsText [] = []"
| "paramsText [e] = entryText e"
| "paramsText (e # es) = entryText e @ '','' @ paramsText es"

text \<open>
  An entry the token-level split handles: the declarator is not empty and has neither
  \<open>=\<close> nor a comma, and the default value has no comma.
\<close>

definition plainEntry :: "paramEntry \<Rightarrow> bool" where
  "plainEntry e =
     (fst e \<noteq> [] \<and> CHR ''='' \<notin> set (fst e) \<and> CHR '','' \<notin> set (fst e)
      \<and> (case snd e of None \<Rightarrow> True | Some v \<Rightarrow> CHR '','' \<notin> set v))"

text \<open>
  The declarators alone, as they stand: a comma after an entry without a default,
  a comma and a space after an entry that had one.
\<close>

fun strippedText :: "paramEntry list \<Rightarrow> string" where
  "strippedText [] = []"
| "strippedText [e] = fst e"
| "strippedText (e # es) =
     fst e @ (case snd e of None \<Rightarrow> '','' | Some v \<Rightarrow> '', '') @ strippedText es"

text \<open>The getter of a single operand and the getter of the variadic operand.\<close>

definition singleOperandGetter :: "nat \<Rightarrow> string \<Rightarrow> OpMethod" where
  "singleOperandGetter i n =
     \<lparr>properties = MP_None, isDeclOnly = False,
      methodSignature = \<lparr>returnType = ''Value *'', methodName = n, parameters = []\<rparr>,
      methodBody = \<lparr>isEffective = True,
        body = ''  return this->getOperation()->getOperand('' @ to_string i @ '');\<newline>''\<rparr>\<rparr>"

definition operandSliceGetter :: "nat \<Rightarrow> string \<Rightarrow> OpMethod" where
  "operandSliceGetter k n =
     \<lparr>properties = MP_None, isDeclOnly = False,
      methodSignature =
        \<lparr>returnType = ''Operation::operand_range'', methodName = n, parameters = []\<rparr>,
      methodBody = \<lparr>isEffective = True,
        body = ''\<newline>        assert(getOperation()->getNumOperands() >= '' @ to_string k
          @ '');\<newline>        return {std::next(operand_begin(), '' @ to_string k
          @ ''), operand_end()};\<newline>      ''\<rparr>\<rparr>"

text \<open>The getters expected for the operands from index \<open>i\<close> on.\<close>

fun expectedGetters :: "nat \<Rightarrow> NamedTypeConstraint list \<Rightarrow> OpMethod list" where
  "expectedGetters i [] = []"
| "expectedGetters i (x # xs) =
     (if name x = [] then []
      else if isVariadic (constraint x) then [operandSliceGetter i (name x)]
      else [singleOperandGetter i (name x)]) @ expectedGetters (Suc i) xs"

text \<open>No custom verification code: the \<open>verifier\<close> field holds no code, or empty code.\<close>

definition noCustomVerifyCode :: "Record \<Rightarrow> bool" where
  "noCustomVerifyCode rcd = (case verifier rcd of CodeInit v \<Rightarrow> v = [] | _ \<Rightarrow> True)"



text \<open>
  The assertion on the size of an array of the aggregated builder: \<open>fixedCount\<close> is the
  number of results (operands) that are not variadic.
\<close>

definition sizeAssert :: "string \<Rightarrow> nat \<Rightarrow> bool \<Rightarrow> string \<Rightarrow> string" where
  \<open>sizeAssert array fixedCount variadic what =
     (if variadic \<and> fixedCount = 0 then []
      else ''  assert('' @ array @ ''.size()'' @ (if variadic then '' >= '' else '' == '')
             @ to_string fixedCount @ ''u && "mismatched number of '' @ what
             @ ''");\<newline>'')\<close>

definition expectedAggregatedBuilder :: "Operator \<Rightarrow> OpMethod" where
  \<open>expectedAggregatedBuilder op =
     \<lparr>properties = MP_Static, isDeclOnly = False,
      methodSignature =
        \<lparr>returnType = ''void'', methodName = ''build'',
         parameters = ''Builder *, OperationState *tblgen_state, ''
           @ ''ArrayRef<Type> resultTypes, ArrayRef<Value *> operands, ''
           @ ''ArrayRef<NamedAttribute> attributes''\<rparr>,
      methodBody = \<lparr>isEffective = True,
        body =
          sizeAssert ''resultTypes''
            (getNumResults op - (if hasVariadicResult op then 1 else 0))
            (hasVariadicResult op) ''return types''
          @ ''  tblgen_state->addTypes(resultTypes);\<newline>''
          @ sizeAssert ''operands''
              (getNumOperands op - (if hasVariadicOperand op then 1 else 0))
              (hasVariadicOperand op) ''parameters''
          @ ''  tblgen_state->addOperands(operands);\<newline>\<newline>''
          @ ''  for (const auto& pair : attributes)\<newline>''
          @ ''    tblgen_state->addAttribute(pair.first, pair.second);\<newline>''\<rparr>\<rparr>\<close>

text \<open>The number of custom builders of a record.\<close>

definition numCustomBuilders :: "Record \<Rightarrow> nat" where
  "numCustomBuilders rcd = (case builders rcd of Some listInit \<Rightarrow> length listInit | None \<Rightarrow> 0)"

text \<open>A text with its leading and trailing white space removed.\<close>

definition trimmed :: "string \<Rightarrow> string" where
  "trimmed s = rtrim default_trim_chars (ltrim default_trim_chars s)"

subsection \<open>Concrete inputs\<close>

text \<open>A formatter for inputs without templates: it hands the template back.\<close>

definition plainFmt :: tgfmt where
  "plainFmt template fctx args = template"

text \<open>A record with no custom builder, parser, printer or verifier.\<close>

definition plainRecord :: Record where
  "plainRecord = \<lparr>builders = None, parser = UnsetInit, printer = UnsetInit,
     verifier = UnsetInit\<rparr>"

text \<open>An operation with nothing declared.\<close>

definition nopOp :: Operator where
  "nopOp = \<lparr>operationName = ''x.nop'', cppClassName = ''NopOp'', arguments = [],
     operands = [], results = [], attributes = [], opTraits = []\<rparr>"

text \<open>An operation whose only argument is a required attribute.\<close>

definition axisAttr :: NamedAttribute where
  "axisAttr = \<lparr>attrName = ''axis'',
     attr = \<lparr>storageType = ''IntegerAttr'', isDerivedAttr = False, isOptional = False,
             isTypeAttr = False, hasDefaultValueInitializer = False,
             attrPredicate = None, attrDescription = ''integer attribute''\<rparr>\<rparr>"

definition attrOnlyOp :: Operator where
  "attrOnlyOp = \<lparr>operationName = ''x.mark'', cppClassName = ''MarkOp'',
     arguments = [ArgAttribute], operands = [], results = [], attributes = [axisAttr],
     opTraits = []\<rparr>"

text \<open>
  The operation \<open>Add\<close>: operands \<open>lhs\<close> and \<open>rhs\<close>, one unnamed result, the native trait
  \<open>Commutative\<close>.
\<close>

definition anyType :: TypeConstraint where
  "anyType = \<lparr>isVariadic = False, tcDescription = ''any type'', tcPredicate = None\<rparr>"

definition variadicAnyType :: TypeConstraint where
  "variadicAnyType = \<lparr>isVariadic = True, tcDescription = ''any type'', tcPredicate = None\<rparr>"

definition addOp :: Operator where
  "addOp = \<lparr>operationName = ''x.add'', cppClassName = ''AddOp'',
     arguments = [ArgOperand, ArgOperand],
     operands = [\<lparr>name = ''lhs'', constraint = anyType\<rparr>,
                 \<lparr>name = ''rhs'', constraint = anyType\<rparr>],
     results = [\<lparr>name = [], constraint = anyType\<rparr>],
     attributes = [], opTraits = [NativeOpTrait ''Commutative'']\<rparr>"

text \<open>
  The operation \<open>Call\<close>: the operand \<open>callee\<close>, an unnamed operand and the variadic
  operand \<open>args\<close>; one variadic result.
\<close>

definition callOp :: Operator where
  "callOp = \<lparr>operationName = ''x.call'', cppClassName = ''CallOp'',
     arguments = [ArgOperand, ArgOperand, ArgOperand],
     operands = [\<lparr>name = ''callee'', constraint = anyType\<rparr>,
                 \<lparr>name = [], constraint = anyType\<rparr>,
                 \<lparr>name = ''args'', constraint = variadicAnyType\<rparr>],
     results = [\<lparr>name = ''outs'', constraint = variadicAnyType\<rparr>],
     attributes = [], opTraits = []\<rparr>"



text \<open>A record with a parser and a printer given as code.\<close>

definition syntaxRecord :: Record where
  "syntaxRecord = \<lparr>builders = None,
     parser = CodeInit '' return false;\<newline>'',
     printer = CodeInit [CHR 0x0A, CHR 0x09, CHR ''x'', CHR '';'', CHR '' '', CHR 0x0D, CHR 0x0A,
                         CHR '' '', CHR 0x09],
     verifier = UnsetInit\<rparr>"

text \<open>
  The operation \<open>Apply\<close>: the operands of \<open>Call\<close>, the last one variadic, and one
  unnamed result that is not variadic.
\<close>

definition applyOp :: Operator where
  "applyOp = callOp\<lparr>operationName := ''x.apply'', cppClassName := ''ApplyOp'',
     results := [\<lparr>name = [], constraint = anyType\<rparr>]\<rparr>"


text \<open>The operation \<open>Pack\<close>: the operand \<open>head\<close> and a variadic operand without a name.\<close>

definition packOp :: Operator where
  "packOp = \<lparr>operationName = ''x.pack'', cppClassName = ''PackOp'',
     arguments = [ArgOperand, ArgOperand],
     operands = [\<lparr>name = ''head'', constraint = anyType\<rparr>,
                 \<lparr>name = [], constraint = variadicAnyType\<rparr>],
     results = [], attributes = [], opTraits = []\<rparr>"

section \<open>Properties of the trait list\<close>

lemma addNativeTraits_traits:
  "addNativeTraits cls ts =
     cls\<lparr>traits := traits cls @ map (\<lambda>t. ''OpTrait::'' @ t) (nativeTraitNames ts)\<rparr>"
  by (induction cls ts rule: addNativeTraits.induct) (simp_all add: addTrait_def)

lemma genTraits_fresh:
  "traits (genTraits op (OpClass_new nm)) =
     [''OpTrait::'' @ resultArityTrait (getNumResults op) (hasVariadicResult op)]
     @ map (\<lambda>t. ''OpTrait::'' @ t) (nativeTraitNames (opTraits op))
     @ [''OpTrait::'' @ operandArityTrait (getNumOperands op) (hasVariadicOperand op)]"
  by (simp add: genTraits_def Let_def addNativeTraits_traits addTrait_def
      resultArityTrait_def operandArityTrait_def OpClass_new_def)

lemma filter_first: "P a \<Longrightarrow> filter P bs = [] \<Longrightarrow> \<not> P c \<Longrightarrow> filter P ([a] @ bs @ [c]) = [a]"
  by simp

lemma filter_last: "\<not> P a \<Longrightarrow> filter P bs = [] \<Longrightarrow> P c \<Longrightarrow> filter P ([a] @ bs @ [c]) = [c]"
  by simp

text \<open>
  C1. The trait list derived for an operation is, in this order: one result-arity trait
  (\<open>ZeroResult\<close>, \<open>OneResult\<close> or \<open>NResults<k>::Impl\<close> without a variadic result,
  \<open>VariadicResults\<close> when the only result is variadic, \<open>AtLeastNResults<k-1>::Impl\<close> when
  the variadic result follows fixed ones), then every declared native trait in
  declaration order, then one operand-arity trait (\<open>NOperands<k>::Impl\<close>,
  \<open>VariadicOperands\<close> or \<open>AtLeastNOperands<k-1>::Impl\<close>); every identifier is prefixed
  with \<open>OpTrait::\<close>.
\<close>

theorem genTraits_order:
  "genTraits op cls =
     cls\<lparr>traits := traits cls
        @ map (\<lambda>t. ''OpTrait::'' @ t)
            ([resultArityTrait (getNumResults op) (hasVariadicResult op)]
             @ nativeTraitNames (opTraits op)
             @ [operandArityTrait (getNumOperands op) (hasVariadicOperand op)])\<rparr>"
  by (simp add: genTraits_def Let_def addNativeTraits_traits addTrait_def
      resultArityTrait_def operandArityTrait_def)

lemma to_string_digits:
  "to_string 0 = ''0''" "to_string 1 = ''1''" "to_string 2 = ''2''" "to_string 3 = ''3''"
  "to_string (Suc 0) = ''1''" "to_string (Suc (Suc 0)) = ''2''"
  "to_string (Suc (Suc (Suc 0))) = ''3''"
  by (simp_all add: to_string.simps digit_def)

theorem genTraits_order_example:
  "traits (genTraits addOp (OpClass_new (cppClassName addOp)))
     = [''OpTrait::OneResult'', ''OpTrait::Commutative'', ''OpTrait::NOperands<2>::Impl'']"
  using genTraits_order [of addOp "OpClass_new (cppClassName addOp)"]
  by (simp add: addOp_def anyType_def OpClass_new_def resultArityTrait_def
      operandArityTrait_def getNumResults_def getNumOperands_def hasVariadicResult_def
      hasVariadicOperand_def to_string_digits)

text \<open>
  C5, as stated, fails for the operands: an operation without operands gets the trait
  \<open>NOperands<0>::Impl\<close>, and no trait \<open>ZeroOperand\<close>.
\<close>

theorem genTraits_no_ZeroOperand:
  "\<not> hasVariadicOperand nopOp \<and> getNumOperands nopOp = 0
   \<and> traits (genTraits nopOp (OpClass_new (cppClassName nopOp)))
       = [''OpTrait::ZeroResult'', ''OpTrait::NOperands<0>::Impl'']
   \<and> ''OpTrait::ZeroOperand''
       \<notin> set (traits (genTraits nopOp (OpClass_new (cppClassName nopOp))))"
  by (simp add: genTraits_def Let_def addTrait_def nopOp_def OpClass_new_def
        getNumResults_def getNumOperands_def hasVariadicResult_def hasVariadicOperand_def
        to_string_digits)

lemma filter_native_traits:
  assumes "\<forall>t\<in>set ns. \<not> P (''OpTrait::'' @ t)"
  shows "filter P (map (\<lambda>t. ''OpTrait::'' @ t) ns) = []"
  using assms by (induction ns) auto

text \<open>
  C5, amended. For an operation with \<open>r\<close> results and no variadic result, whose declared
  native traits are not themselves spelled as result-arity traits, the trait list of
  its class holds exactly one result-arity trait: \<open>ZeroResult\<close> (\<open>r = 0\<close>), \<open>OneResult\<close>
  (\<open>r = 1\<close>) or \<open>NResults<r>::Impl\<close> (otherwise). And for an operation with \<open>k\<close> operands
  and no variadic operand, whose declared native traits are not themselves spelled as
  operand-arity traits, it holds exactly one operand-arity trait: \<open>NOperands<k>::Impl\<close>
  for every \<open>k\<close>, also \<open>0\<close> and \<open>1\<close>. Each half holds whatever the other arity is.
\<close>

theorem genTraits_fixed_arity:
  "(\<not> hasVariadicResult op
      \<and> (\<forall>t\<in>set (nativeTraitNames (opTraits op)). \<not> isResultArityTrait (''OpTrait::'' @ t))
     \<longrightarrow> filter isResultArityTrait (traits (genTraits op (OpClass_new (cppClassName op))))
           = [''OpTrait::'' @ (if getNumResults op = 0 then ''ZeroResult''
                               else if getNumResults op = 1 then ''OneResult''
                               else ''NResults<'' @ to_string (getNumResults op) @ ''>::Impl'')])
   \<and> (\<not> hasVariadicOperand op
      \<and> (\<forall>t\<in>set (nativeTraitNames (opTraits op)). \<not> isOperandArityTrait (''OpTrait::'' @ t))
     \<longrightarrow> filter isOperandArityTrait (traits (genTraits op (OpClass_new (cppClassName op))))
           = [''OpTrait::NOperands<'' @ to_string (getNumOperands op) @ ''>::Impl''])"
proof (intro conjI impI)
  let ?ns = "nativeTraitNames (opTraits op)"
  assume h: "\<not> hasVariadicResult op
      \<and> (\<forall>t\<in>set ?ns. \<not> isResultArityTrait (''OpTrait::'' @ t))"
  then have n: "filter isResultArityTrait (map (\<lambda>t. ''OpTrait::'' @ t) ?ns) = []"
    by (intro filter_native_traits) simp
  have o: "\<not> isResultArityTrait
              (''OpTrait::'' @ operandArityTrait (getNumOperands op) (hasVariadicOperand op))"
    by (simp add: isResultArityTrait_def operandArityTrait_def)
  have r: "isResultArityTrait
             (''OpTrait::'' @ resultArityTrait (getNumResults op) (hasVariadicResult op))"
    by (simp add: isResultArityTrait_def resultArityTrait_def)
  have name: "resultArityTrait (getNumResults op) (hasVariadicResult op)
      = (if getNumResults op = 0 then ''ZeroResult''
         else if getNumResults op = 1 then ''OneResult''
         else ''NResults<'' @ to_string (getNumResults op) @ ''>::Impl'')"
    using h by (simp add: resultArityTrait_def)
  have "filter isResultArityTrait (traits (genTraits op (OpClass_new (cppClassName op))))
          = [''OpTrait::'' @ resultArityTrait (getNumResults op) (hasVariadicResult op)]"
    unfolding genTraits_fresh by (rule filter_first [of isResultArityTrait, OF r n o])
  then show "filter isResultArityTrait (traits (genTraits op (OpClass_new (cppClassName op))))
           = [''OpTrait::'' @ (if getNumResults op = 0 then ''ZeroResult''
                               else if getNumResults op = 1 then ''OneResult''
                               else ''NResults<'' @ to_string (getNumResults op) @ ''>::Impl'')]"
    by (simp only: name)
next
  let ?ns = "nativeTraitNames (opTraits op)"
  assume h: "\<not> hasVariadicOperand op
      \<and> (\<forall>t\<in>set ?ns. \<not> isOperandArityTrait (''OpTrait::'' @ t))"
  then have n: "filter isOperandArityTrait (map (\<lambda>t. ''OpTrait::'' @ t) ?ns) = []"
    by (intro filter_native_traits) simp
  have r: "\<not> isOperandArityTrait
              (''OpTrait::'' @ resultArityTrait (getNumResults op) (hasVariadicResult op))"
    by (simp add: isOperandArityTrait_def resultArityTrait_def)
  have o: "isOperandArityTrait
             (''OpTrait::'' @ operandArityTrait (getNumOperands op) (hasVariadicOperand op))"
    by (simp add: isOperandArityTrait_def operandArityTrait_def)
  have name: "operandArityTrait (getNumOperands op) (hasVariadicOperand op)
      = ''NOperands<'' @ to_string (getNumOperands op) @ ''>::Impl''"
    using h by (simp add: operandArityTrait_def)
  have "filter isOperandArityTrait (traits (genTraits op (OpClass_new (cppClassName op))))
          = [''OpTrait::'' @ operandArityTrait (getNumOperands op) (hasVariadicOperand op)]"
    unfolding genTraits_fresh by (rule filter_last [of isOperandArityTrait, OF r n o])
  then show "filter isOperandArityTrait (traits (genTraits op (OpClass_new (cppClassName op))))
           = [''OpTrait::NOperands<'' @ to_string (getNumOperands op) @ ''>::Impl'']"
    by (simp add: name)
qed

theorem genTraits_fixed_arity_witness:
  "filter isResultArityTrait (traits (genTraits applyOp (OpClass_new (cppClassName applyOp))))
     = [''OpTrait::OneResult'']
   \<and> filter isOperandArityTrait (traits (genTraits addOp (OpClass_new (cppClassName addOp))))
     = [''OpTrait::NOperands<2>::Impl'']
   \<and> hasVariadicOperand applyOp"
proof -
  have v: "\<not> hasVariadicResult applyOp" "\<not> hasVariadicOperand addOp"
    "hasVariadicOperand applyOp"
    by (simp_all add: hasVariadicResult_def hasVariadicOperand_def addOp_def applyOp_def
        callOp_def anyType_def variadicAnyType_def)
  have n: "\<forall>t\<in>set (nativeTraitNames (opTraits applyOp)).
             \<not> isResultArityTrait (''OpTrait::'' @ t)"
    "\<forall>t\<in>set (nativeTraitNames (opTraits addOp)).
             \<not> isOperandArityTrait (''OpTrait::'' @ t)"
    by (simp_all add: addOp_def applyOp_def callOp_def isOperandArityTrait_def)
  have c: "getNumResults applyOp = 1" "getNumOperands addOp = 2"
    by (simp_all add: getNumResults_def getNumOperands_def addOp_def applyOp_def callOp_def)
  show ?thesis
    using genTraits_fixed_arity [of applyOp] genTraits_fixed_arity [of addOp] v n
    by (simp add: c to_string_digits)
qed

section \<open>Properties of the definition renderer\<close>

lemma str_split_found: "c \<notin> set a \<Longrightarrow> str_split (a @ c # b) c = (a, b)"
  by (induction a) auto

lemma str_split_absent: "c \<notin> set a \<Longrightarrow> str_split a c = (a, [])"
  by (induction a) auto

text \<open>
  The loop on the text of some entries, after a piece \<open>pre\<close> without \<open>=\<close> that belongs to
  the declarators read so far.
\<close>

lemma removeParamDefaultValueLoop_entries:
  assumes "es \<noteq> []" and "list_all plainEntry es" and "CHR ''='' \<notin> set pre"
  shows "removeParamDefaultValueLoop (pre @ paramsText es) result
           = result @ (if result = [] then [] else '', '') @ pre @ strippedText es"
  using assms
proof (induction es arbitrary: pre result rule: paramsText.induct)
  case 1
  then show ?case by simp
next
  case (2 e)
  obtain d v where e: "e = (d, v)" by (cases e)
  show ?case
  proof (cases v)
    case None
    with 2 e have "CHR ''='' \<notin> set (pre @ d)" and "d \<noteq> []"
      by (auto simp: plainEntry_def)
    then show ?thesis using e None
      by (subst removeParamDefaultValueLoop.simps)
         (simp add: str_split_absent Let_def removeParamDefaultValueLoop.simps[of "[]"])
  next
    case (Some x)
    with 2 e have a: "CHR ''='' \<notin> set (pre @ d)" and "d \<noteq> []" and x: "CHR '','' \<notin> set x"
      by (auto simp: plainEntry_def)
    have "str_split (pre @ d @ CHR ''='' # x) (CHR ''='') = (pre @ d, x)"
      using str_split_found[OF a, of x] by simp
    then show ?thesis using e Some x \<open>d \<noteq> []\<close>
      by (subst removeParamDefaultValueLoop.simps)
         (simp add: str_split_absent Let_def removeParamDefaultValueLoop.simps[of "[]"])
  qed
next
  case (3 e e' es)
  obtain d v where e: "e = (d, v)" by (cases e)
  from 3 have rest: "e' # es \<noteq> []" "list_all plainEntry (e' # es)" by simp_all
  let ?rest = "paramsText (e' # es)"
  let ?sep = "if result = [] then [] else '', ''"
  show ?case
  proof (cases v)
    case None
    with 3 e have p: "CHR ''='' \<notin> set (pre @ d @ '','')"
      by (auto simp: plainEntry_def)
    have "removeParamDefaultValueLoop ((pre @ d @ '','') @ ?rest) result
            = result @ ?sep @ (pre @ d @ '','') @ strippedText (e' # es)"
      by (rule "3.IH"[OF rest p])
    then show ?thesis using e None by simp
  next
    case (Some x)
    with 3 e have a: "CHR ''='' \<notin> set (pre @ d)" and d: "d \<noteq> []"
      and x: "CHR '','' \<notin> set x"
      by (auto simp: plainEntry_def)
    let ?result2 = "result @ ?sep @ pre @ d"
    have s1: "str_split (pre @ d @ CHR ''='' # x @ CHR '','' # ?rest) (CHR ''='')
                = (pre @ d, x @ CHR '','' # ?rest)"
      using str_split_found[OF a, of "x @ CHR '','' # ?rest"] by simp
    have s2: "str_split (x @ CHR '','' # ?rest) (CHR '','') = (x, ?rest)"
      using str_split_found[OF x] by simp
    have ih: "removeParamDefaultValueLoop ([] @ ?rest) ?result2
            = ?result2 @ (if ?result2 = [] then [] else '', '') @ [] @ strippedText (e' # es)"
      by (rule "3.IH"[OF rest]) simp
    have "removeParamDefaultValueLoop (pre @ d @ CHR ''='' # x @ CHR '','' # ?rest) result
           = removeParamDefaultValueLoop ?rest ?result2"
      by (subst removeParamDefaultValueLoop.simps) (simp add: s1 s2 Let_def)
    then show ?thesis using e Some ih d by simp
  qed
qed

text \<open>
  C2, as stated, fails: the definition of a method with the parameter text
  \<open>int a = 1, Foo *b\<close> has the parameters \<open>int a ,  Foo *b\<close>, with the space before
  \<open>=\<close> kept and a separator added before the space that followed the comma.
\<close>

theorem writeDefTo_keeps_spaces:
  "OpMethodSignature_writeDefTo
     \<lparr>returnType = ''void'', methodName = ''build'', parameters = ''int a = 1, Foo *b''\<rparr>
     [] ''AddOp''
     = ''void AddOp::build(int a ,  Foo *b)''
   \<and> removeParamDefaultValue ''int a = 1, Foo *b'' \<noteq> ''int a, Foo *b''
   \<and> OpMethod_writeDefTo
       (stream (OpMethod_new ''void'' ''build'' ''int a = 1, Foo *b'' MP_Static False)
          ''  return;\<newline>'')
       [] ''AddOp''
     = ''void AddOp::build(int a ,  Foo *b) {\<newline>  return;\<newline>}''"
  by code_simp

text \<open>
  C2, amended. For parameter text made of comma-separated entries, each a non-empty
  declarator without \<open>=\<close> or comma, followed or not by \<open>=\<close> and a default value without
  comma, the definition renderer writes each declarator as it stands (the portion
  before the \<open>=\<close>, not trimmed), with a comma after an entry without default and a
  comma and a space after an entry that had one; so \<open>int a = 1, Foo *b\<close> is rendered
  as \<open>int a ,  Foo *b\<close>.
\<close>

theorem writeDefTo_strips_defaults:
  assumes "list_all plainEntry es" and "parameters sig = paramsText es"
  shows "removeParamDefaultValue (parameters sig) = strippedText es
       \<and> OpMethodSignature_writeDefTo sig os namePrefix
           = os @ returnType sig @ (if endsWithRefOrPtr (returnType sig) then [] else '' '')
               @ namePrefix @ (if namePrefix = [] then [] else ''::'') @ methodName sig
               @ ''('' @ strippedText es @ '')''"
proof -
  have "removeParamDefaultValue (paramsText es) = strippedText es"
  proof (cases "es = []")
    case True
    then show ?thesis
      by (simp add: removeParamDefaultValue_def removeParamDefaultValueLoop.simps)
  next
    case False
    from removeParamDefaultValueLoop_entries[OF False assms(1), of "[]" "[]"]
    show ?thesis by (simp add: removeParamDefaultValue_def)
  qed
  then show ?thesis
    by (simp add: OpMethodSignature_writeDefTo_def assms(2))
qed

theorem writeDefTo_strips_defaults_witness:
  "OpMethodSignature_writeDefTo
     \<lparr>returnType = ''void'', methodName = ''build'', parameters = ''int a = 1, Foo *b''\<rparr>
     ''// generated '' ''AddOp''
     = ''// generated void AddOp::build(int a ,  Foo *b)''"
proof -
  let ?es = "[(''int a '', Some '' 1''), ('' Foo *b'', None)]"
  let ?sig = "\<lparr>returnType = ''void'', methodName = ''build'',
                parameters = ''int a = 1, Foo *b''\<rparr>"
  have p: "list_all plainEntry ?es" by (simp add: plainEntry_def)
  have t: "parameters ?sig = paramsText ?es" by simp
  show ?thesis
    using writeDefTo_strips_defaults [OF p t, of "''// generated ''" "''AddOp''"]
    by (simp add: endsWithRefOrPtr_def endswith_def)
qed

section \<open>Properties of the operand getters\<close>

text \<open>
  When every variadic operand met by the loop stands at the last index, the loop ends
  without a failed assertion and adds the expected getters.
\<close>

lemma namedOperandGettersLoop_expected:
  "(\<forall>j<length xs. isVariadic (constraint (xs ! j)) \<longrightarrow> Suc (i + j) = e) \<Longrightarrow>
   namedOperandGettersLoop i e xs cls
     = Inr (cls\<lparr>methods := methods cls @ expectedGetters i xs\<rparr>)"
proof (induction xs arbitrary: i cls)
  case Nil
  then show ?case by simp
next
  case (Cons x xs)
  have rest: "\<forall>j<length xs. isVariadic (constraint (xs ! j)) \<longrightarrow> Suc (Suc i + j) = e"
    using Cons.prems by fastforce
  note ih = Cons.IH[OF rest]
  consider (unnamed) "name x = []"
    | (single) "name x \<noteq> []" "\<not> isVariadic (constraint x)"
    | (slice) "name x \<noteq> []" "isVariadic (constraint x)"
    by blast
  then show ?case
  proof cases
    case unnamed
    then show ?thesis by (simp add: ih)
  next
    case single
    then show ?thesis
      by (simp add: ih newMethod_def singleOperandGetter_def OpMethod_new_def stream_def)
  next
    case slice
    from Cons.prems slice(2) have "Suc i = e" by fastforce
    then have "i + 1 = e" by simp
    with slice show ?thesis
      by (simp add: ih newMethod_def operandSliceGetter_def OpMethod_new_def stream_def
          variadicGetterCode_def del: One_nat_def add_Suc_right)
  qed
qed

text \<open>Whenever the loop ends without error, it has added the expected getters.\<close>

lemma namedOperandGettersLoop_result:
  "namedOperandGettersLoop i e xs cls = Inr cls' \<Longrightarrow>
   cls' = cls\<lparr>methods := methods cls @ expectedGetters i xs\<rparr>"
proof (induction xs arbitrary: i cls)
  case Nil
  then show ?case by simp
next
  case (Cons x xs)
  consider (unnamed) "name x = []"
    | (single) "name x \<noteq> []" "\<not> isVariadic (constraint x)"
    | (slice) "name x \<noteq> []" "isVariadic (constraint x)"
    by blast
  then show ?case
  proof cases
    case unnamed
    with Cons.prems have "namedOperandGettersLoop (Suc i) e xs cls = Inr cls'" by simp
    from Cons.IH[OF this] unnamed show ?thesis by simp
  next
    case single
    let ?c = "newMethod cls (singleOperandGetter i (name x))"
    from single Cons.prems have "namedOperandGettersLoop (Suc i) e xs ?c = Inr cls'"
      by (simp add: singleOperandGetter_def OpMethod_new_def stream_def)
    from Cons.IH[OF this] single show ?thesis by (simp add: newMethod_def)
  next
    case slice
    let ?c = "newMethod cls (operandSliceGetter i (name x))"
    from slice Cons.prems have "namedOperandGettersLoop (Suc i) e xs ?c = Inr cls'"
      by (simp add: operandSliceGetter_def OpMethod_new_def stream_def variadicGetterCode_def
          split: if_splits)
    from Cons.IH[OF this] slice show ?thesis by (simp add: newMethod_def)
  qed
qed

lemma expectedGetters_names:
  "map (\<lambda>m. methodName (methodSignature m)) (expectedGetters i xs)
     = filter (\<lambda>n. n \<noteq> []) (map name xs)"
  by (induction xs arbitrary: i) (simp_all add: singleOperandGetter_def operandSliceGetter_def)

lemma expectedGetters_append:
  "expectedGetters i (xs @ ys) = expectedGetters i xs @ expectedGetters (i + length xs) ys"
  by (induction xs arbitrary: i) simp_all

lemma expectedGetters_fixed:
  "\<forall>x\<in>set xs. \<not> isVariadic (constraint x) \<Longrightarrow>
   expectedGetters i xs
     = map (\<lambda>j. singleOperandGetter (i + j) (name (xs ! j)))
         (filter (\<lambda>j. name (xs ! j) \<noteq> []) [0..<length xs])"
proof (induction xs arbitrary: i)
  case Nil
  then show ?case by simp
next
  case (Cons x xs)
  have upt: "[0..<length (x # xs)] = 0 # map Suc [0..<length xs]"
    by (simp add: upt_conv_Cons map_Suc_upt del: upt_Suc)
  from Cons.prems have "\<forall>x\<in>set xs. \<not> isVariadic (constraint x)"
    and "\<not> isVariadic (constraint x)"
    by simp_all
  then show ?case
    by (simp only: upt) (simp add: Cons.IH filter_map comp_def)
qed

text \<open>
  C4. For an operation whose last operand, at position \<open>k\<close>, is variadic, the operands
  before it being single ones: the getter generated for the variadic operand (it has
  one when it is named) returns the range from \<open>std::next(operand_begin(), k)\<close> to
  \<open>operand_end()\<close>, after the assertion \<open>getNumOperands() >= k\<close>; and the getter of each
  named operand at an index \<open>i\<close> before \<open>k\<close> returns \<open>getOperand(i)\<close>. The getters come in
  the order of the operands, and the pass ends without error.
\<close>

theorem genNamedOperandGetters_variadic_last:
  assumes "operands op = fixed @ [v]" and "isVariadic (constraint v)"
    and "\<forall>x\<in>set fixed. \<not> isVariadic (constraint x)"
  shows "genNamedOperandGetters op cls
           = Inr (cls\<lparr>methods := methods cls
                @ map (\<lambda>i. singleOperandGetter i (name (fixed ! i)))
                    (filter (\<lambda>i. name (fixed ! i) \<noteq> []) [0..<length fixed])
                @ (if name v = [] then [] else [operandSliceGetter (length fixed) (name v)])\<rparr>)"
proof -
  have inv: "\<forall>j<length (operands op). isVariadic (constraint (operands op ! j))
               \<longrightarrow> Suc (0 + j) = getNumOperands op"
  proof (intro allI impI)
    fix j
    assume j: "j < length (operands op)"
      and var: "isVariadic (constraint (operands op ! j))"
    have "\<not> j < length fixed"
    proof
      assume "j < length fixed"
      then have "operands op ! j \<in> set fixed" by (simp add: assms(1) nth_append)
      with assms(3) var show False by blast
    qed
    with j show "Suc (0 + j) = getNumOperands op"
      by (simp add: assms(1) getNumOperands_def)
  qed
  show ?thesis
    unfolding genNamedOperandGetters_def namedOperandGettersLoop_expected[OF inv]
    by (simp add: assms(1,2) expectedGetters_append expectedGetters_fixed[OF assms(3)])
qed

theorem genNamedOperandGetters_variadic_last_witness:
  \<open>genNamedOperandGetters callOp (OpClass_new ''CallOp'')
     = Inr \<lparr>className = ''CallOp'', traits = [],
            methods =
              [\<lparr>properties = MP_None, isDeclOnly = False,
                methodSignature =
                  \<lparr>returnType = ''Value *'', methodName = ''callee'', parameters = []\<rparr>,
                methodBody = \<lparr>isEffective = True,
                  body = ''  return this->getOperation()->getOperand(0);\<newline>''\<rparr>\<rparr>,
               \<lparr>properties = MP_None, isDeclOnly = False,
                methodSignature =
                  \<lparr>returnType = ''Operation::operand_range'', methodName = ''args'',
                   parameters = []\<rparr>,
                methodBody = \<lparr>isEffective = True,
                  body = ''\<newline>        assert(getOperation()->getNumOperands() >= 2);\<newline>''
                    @ ''        return {std::next(operand_begin(), 2), operand_end()};\<newline>''
                    @ ''      ''\<rparr>\<rparr>]\<rparr>\<close>
proof -
  let ?fixed = "[\<lparr>name = ''callee'', constraint = anyType\<rparr>, \<lparr>name = [], constraint = anyType\<rparr>]"
  let ?v = "\<lparr>name = ''args'', constraint = variadicAnyType\<rparr>"
  have a: "operands callOp = ?fixed @ [?v]" by (simp add: callOp_def)
  have b: "isVariadic (constraint ?v)" by (simp add: variadicAnyType_def)
  have c: "\<forall>x\<in>set ?fixed. \<not> isVariadic (constraint x)" by (simp add: anyType_def)
  have u: "[0..<2] = [0, 1]" by (simp add: upt_conv_Cons)
  show ?thesis
    using genNamedOperandGetters_variadic_last [OF a b c, of "OpClass_new ''CallOp''"]
    by (simp add: OpClass_new_def singleOperandGetter_def operandSliceGetter_def
        to_string_digits u numeral_2_eq_2)
qed

text \<open>
  C10. The pass ends without error when only the last operand may be variadic; and
  whenever it ends without error, the methods it has added are exactly the getters of
  the operands whose name is not empty, in the order of the operands: for such an
  operand at index \<open>i\<close> the method \<open>Value *name()\<close> that returns \<open>getOperand(i)\<close>, or,
  when it is variadic, the method \<open>Operation::operand_range name()\<close> that returns the
  range from index \<open>i\<close>. No method is added for an operand whose name is empty, variadic
  or not; so the names of the getters are the non-empty operand names.
\<close>

theorem genNamedOperandGetters_named_only:
  "((\<forall>i<length (operands op). isVariadic (constraint (operands op ! i))
        \<longrightarrow> Suc i = length (operands op))
      \<longrightarrow> (\<exists>cls'. genNamedOperandGetters op cls = Inr cls'))
   \<and> (\<forall>cls'. genNamedOperandGetters op cls = Inr cls'
        \<longrightarrow> cls' = cls\<lparr>methods := methods cls @ expectedGetters 0 (operands op)\<rparr>)
   \<and> map (\<lambda>m. methodName (methodSignature m)) (expectedGetters 0 (operands op))
       = filter (\<lambda>n. n \<noteq> []) (map name (operands op))
   \<and> length (expectedGetters 0 (operands op))
       = length (filter (\<lambda>x. name x \<noteq> []) (operands op))"
proof (intro conjI impI allI)
  assume "\<forall>i<length (operands op). isVariadic (constraint (operands op ! i))
              \<longrightarrow> Suc i = length (operands op)"
  then have "\<forall>j<length (operands op). isVariadic (constraint (operands op ! j))
               \<longrightarrow> Suc (0 + j) = getNumOperands op"
    by (simp add: getNumOperands_def)
  from namedOperandGettersLoop_expected[OF this]
  show "\<exists>cls'. genNamedOperandGetters op cls = Inr cls'"
    unfolding genNamedOperandGetters_def by blast
next
  fix cls'
  assume "genNamedOperandGetters op cls = Inr cls'"
  then show "cls' = cls\<lparr>methods := methods cls @ expectedGetters 0 (operands op)\<rparr>"
    unfolding genNamedOperandGetters_def by (rule namedOperandGettersLoop_result)
next
  show "map (\<lambda>m. methodName (methodSignature m)) (expectedGetters 0 (operands op))
       = filter (\<lambda>n. n \<noteq> []) (map name (operands op))"
    by (rule expectedGetters_names)
next
  have "length (map (\<lambda>m. methodName (methodSignature m)) (expectedGetters 0 (operands op)))
          = length (filter (\<lambda>n. n \<noteq> []) (map name (operands op)))"
    by (simp only: expectedGetters_names)
  then show "length (expectedGetters 0 (operands op))
       = length (filter (\<lambda>x. name x \<noteq> []) (operands op))"
    by (simp add: filter_map comp_def)
qed

theorem genNamedOperandGetters_named_only_witness:
  \<open>genNamedOperandGetters packOp (OpClass_new ''PackOp'')
     = Inr \<lparr>className = ''PackOp'', traits = [],
            methods =
              [\<lparr>properties = MP_None, isDeclOnly = False,
                methodSignature =
                  \<lparr>returnType = ''Value *'', methodName = ''head'', parameters = []\<rparr>,
                methodBody = \<lparr>isEffective = True,
                  body = ''  return this->getOperation()->getOperand(0);\<newline>''\<rparr>\<rparr>]\<rparr>\<close>
proof -
  have inv: "\<forall>i<length (operands packOp). isVariadic (constraint (operands packOp ! i))
              \<longrightarrow> Suc i = length (operands packOp)"
    by (simp add: packOp_def anyType_def variadicAnyType_def less_Suc_eq)
  from genNamedOperandGetters_named_only [of packOp "OpClass_new ''PackOp''"] inv
  obtain cls' where c: "genNamedOperandGetters packOp (OpClass_new ''PackOp'') = Inr cls'"
    by blast
  with genNamedOperandGetters_named_only [of packOp "OpClass_new ''PackOp''"]
  have "cls' = (OpClass_new ''PackOp'')\<lparr>methods := methods (OpClass_new ''PackOp'')
                  @ expectedGetters 0 (operands packOp)\<rparr>"
    by blast
  with c show ?thesis
    by (simp add: packOp_def OpClass_new_def anyType_def variadicAnyType_def
        singleOperandGetter_def to_string_digits)
qed

section \<open>Properties of the verifier pass\<close>

text \<open>The fields of a method after streaming into its body.\<close>

lemma stream_fields:
  "isEffective (methodBody (stream m c)) = isEffective (methodBody m)"
  "isEffective (methodBody m) \<Longrightarrow> body (methodBody (stream m c)) = body (methodBody m) @ c"
  "methodSignature (stream m c) = methodSignature m"
  "isDeclOnly (stream m c) = isDeclOnly m"
  "properties (stream m c) = properties m"
  by (simp_all add: stream_def)

lemma streams_fields:
  "isEffective (methodBody (streams m cs)) = isEffective (methodBody m)"
  "isEffective (methodBody m) \<Longrightarrow>
     body (methodBody (streams m cs)) = body (methodBody m) @ concat cs"
  "methodSignature (streams m cs) = methodSignature m"
  "isDeclOnly (streams m cs) = isDeclOnly m"
  "properties (streams m cs) = properties m"
  unfolding streams_def
  by (induction cs arbitrary: m) (simp_all add: stream_fields)

lemma OpMethod_new_fields:
  "isEffective (methodBody (OpMethod_new r n p q d)) = (\<not> d)"
  "body (methodBody (OpMethod_new r n p q d)) = []"
  "methodSignature (OpMethod_new r n p q d)
     = \<lparr>returnType = r, methodName = n, parameters = p\<rparr>"
  "isDeclOnly (OpMethod_new r n p q d) = d"
  "properties (OpMethod_new r n p q d) = q"
  by (simp_all add: OpMethod_new_def)

lemmas method_fields = stream_fields streams_fields OpMethod_new_fields

lemma verifyAttributes_pair:
  "methodSignature (fst (verifyAttributes fmt as (m, fctx))) = methodSignature m
   \<and> isDeclOnly (fst (verifyAttributes fmt as (m, fctx))) = isDeclOnly m"
  by (induction as arbitrary: m fctx) (simp_all add: Let_def method_fields split: option.splits)

lemma verifyAttributes_signature:
  "methodSignature (fst (verifyAttributes fmt as acc)) = methodSignature (fst acc)"
  "isDeclOnly (fst (verifyAttributes fmt as acc)) = isDeclOnly (fst acc)"
  using verifyAttributes_pair[of fmt as "fst acc" "snd acc"] by simp_all

lemma verifyValues_pair:
  "methodSignature (fst (verifyValues fmt b i vs (m, fctx))) = methodSignature m
   \<and> isDeclOnly (fst (verifyValues fmt b i vs (m, fctx))) = isDeclOnly m"
  by (induction vs arbitrary: b i m fctx)
     (simp_all add: Let_def method_fields split: option.splits)

lemma verifyValues_signature:
  "methodSignature (fst (verifyValues fmt b i vs acc)) = methodSignature (fst acc)"
  "isDeclOnly (fst (verifyValues fmt b i vs acc)) = isDeclOnly (fst acc)"
  using verifyValues_pair[of fmt b i vs "fst acc" "snd acc"] by simp_all

lemma verifyTraits_signature:
  "methodSignature (verifyTraits fmt fctx ts m) = methodSignature m"
  "isDeclOnly (verifyTraits fmt fctx ts m) = isDeclOnly m"
  by (induction fmt fctx ts m rule: verifyTraits.induct) (simp_all add: method_fields)

lemma newMethod_neq: "newMethod cls m \<noteq> cls"
proof
  assume "newMethod cls m = cls"
  then have "length (methods (newMethod cls m)) = length (methods cls)" by simp
  then show False by (simp add: newMethod_def)
qed

text \<open>
  C3, as stated, fails: an operation with neither operands, results nor predicate
  traits and without custom verification code, but with an attribute among its
  arguments, gets a \<open>verify\<close> method, which checks the attribute.
\<close>

theorem genVerifier_attribute_only:
  \<open>noCustomVerifyCode plainRecord \<and> operands attrOnlyOp = [] \<and> results attrOnlyOp = []
   \<and> getNumPredOpTraits attrOnlyOp = 0
   \<and> methods (genVerifier plainFmt plainRecord attrOnlyOp (OpClass_new ''MarkOp''))
       = [\<lparr>properties = MP_None, isDeclOnly = False,
           methodSignature =
             \<lparr>returnType = ''LogicalResult'', methodName = ''verify'', parameters = []\<rparr>,
           methodBody = \<lparr>isEffective = True,
             body = ''  auto tblgen_axis = this->getAttr("axis");\<newline>''
               @ ''  if (!tblgen_axis) return emitOpError("requires attribute 'axis'");\<newline>''
               @ ''  {\<newline>  }\<newline>  return mlir::success();\<newline>''\<rparr>\<rparr>]\<close>
  by code_simp

text \<open>
  C3, amended. The \<open>verify\<close> method is omitted exactly when the operation has no custom
  verification code, no declared arguments (neither operands nor attributes given as
  arguments), no results and no predicate traits; in every other case the pass adds
  one method \<open>verify\<close>, with a body.
\<close>

theorem genVerifier_skipped_iff:
  "if noCustomVerifyCode rcd \<and> getNumArgs op = 0 \<and> getNumResults op = 0
        \<and> getNumPredOpTraits op = 0
   then genVerifier fmt rcd op cls = cls
   else genVerifier fmt rcd op cls \<noteq> cls
        \<and> (\<exists>m. genVerifier fmt rcd op cls = newMethod cls m
               \<and> methodSignature m
                   = \<lparr>returnType = ''LogicalResult'', methodName = ''verify'', parameters = []\<rparr>
               \<and> \<not> isDeclOnly m)"
proof (cases "noCustomVerifyCode rcd \<and> getNumArgs op = 0 \<and> getNumResults op = 0
        \<and> getNumPredOpTraits op = 0")
  case True
  then show ?thesis
    by (auto simp: genVerifier_def noCustomVerifyCode_def Let_def split: Init.splits)
next
  case False
  then have guard: "\<not> (\<not> (case (case verifier rcd of CodeInit v \<Rightarrow> Some v | _ \<Rightarrow> None) of
                 Some v \<Rightarrow> v \<noteq> [] | None \<Rightarrow> False)
              \<and> getNumArgs op = 0 \<and> getNumResults op = 0 \<and> getNumPredOpTraits op = 0)"
    by (auto simp: noCustomVerifyCode_def split: Init.splits)
  have "\<exists>m. genVerifier fmt rcd op cls = newMethod cls m
               \<and> methodSignature m
                   = \<lparr>returnType = ''LogicalResult'', methodName = ''verify'', parameters = []\<rparr>
               \<and> \<not> isDeclOnly m"
    unfolding genVerifier_def Let_def if_not_P[OF guard] case_prod_beta
    by (rule exI, rule conjI, rule refl)
       (simp add: verifyAttributes_signature verifyValues_signature
          verifyTraits_signature method_fields)
  then obtain m where m: "genVerifier fmt rcd op cls = newMethod cls m"
      "methodSignature m
         = \<lparr>returnType = ''LogicalResult'', methodName = ''verify'', parameters = []\<rparr>"
      "\<not> isDeclOnly m"
    by blast
  have "genVerifier fmt rcd op cls \<noteq> cls"
    unfolding m(1) by (rule newMethod_neq)
  with m False show ?thesis by (simp only: if_False) blast
qed

theorem genVerifier_skipped_iff_witness:
  "genVerifier plainFmt plainRecord nopOp (OpClass_new ''NopOp'') = OpClass_new ''NopOp''
   \<and> genVerifier plainFmt plainRecord addOp (OpClass_new ''AddOp'') \<noteq> OpClass_new ''AddOp''"
  using genVerifier_skipped_iff [of plainRecord nopOp plainFmt "OpClass_new ''NopOp''"]
    genVerifier_skipped_iff [of plainRecord addOp plainFmt "OpClass_new ''AddOp''"]
  by (simp add: noCustomVerifyCode_def plainRecord_def nopOp_def addOp_def getNumArgs_def
      getNumResults_def getNumPredOpTraits_def)

section \<open>Properties of the builders\<close>







text \<open>The aggregated builder of the pass is the expected one.\<close>

lemma aggregatedParamBuilder_expected:
  "aggregatedParamBuilder op = expectedAggregatedBuilder op"
proof -
  define vr where "vr = hasVariadicResult op"
  define nr where "nr = getNumResults op - (if vr then 1 else 0)"
  define vo where "vo = hasVariadicOperand op"
  define no where "no = getNumOperands op - (if vo then 1 else 0)"
  define ps where "ps = ''Builder *, OperationState *'' @ builderOpState
                @ '', ArrayRef<Type> resultTypes, ArrayRef<Value *> operands, ''
                @ ''ArrayRef<NamedAttribute> attributes''"
  define m where "m = OpMethod_new ''void'' ''build'' ps MP_Static False"
  define m1 where \<open>m1 = (if \<not> (vr \<and> nr = 0) then
                 streams m
                   [''  assert(resultTypes.size()'',
                    (if vr then '' >= '' else '' == ''),
                    to_string nr,
                    ''u && "mismatched number of return types");\<newline>'']
               else m)\<close>
  define m2 where "m2 = streams m1 [''  '', builderOpState, ''->addTypes(resultTypes);\<newline>'']"
  define m3 where \<open>m3 = (if \<not> (vo \<and> no = 0) then
                 streams m2
                   [''  assert(operands.size()'',
                    (if vo then '' >= '' else '' == ''),
                    to_string no,
                    ''u && "mismatched number of parameters");\<newline>'']
               else m2)\<close>
  define m4 where "m4 = streams m3
                [''  '', builderOpState, ''->addOperands(operands);\<newline>\<newline>'']"
  define m5 where "m5 = streams m4
                [''  for (const auto& pair : attributes)\<newline>'', ''    '', builderOpState,
                 ''->addAttribute(pair.first, pair.second);\<newline>'']"
  have agg: "aggregatedParamBuilder op = m5"
    unfolding aggregatedParamBuilder_def Let_def m5_def m4_def m3_def m2_def m1_def m_def
      ps_def no_def vo_def nr_def vr_def
    by (rule refl)
  have e: "isEffective (methodBody m)" and b: "body (methodBody m) = []"
    by (simp_all add: m_def method_fields)
  have e1: "isEffective (methodBody m1)"
    by (simp add: m1_def method_fields e)
  have b1: "body (methodBody m1) = sizeAssert ''resultTypes'' nr vr ''return types''"
    by (simp add: m1_def method_fields e b sizeAssert_def)
  have e2: "isEffective (methodBody m2)"
    by (simp add: m2_def method_fields e1)
  have b2: "body (methodBody m2)
              = body (methodBody m1) @ ''  tblgen_state->addTypes(resultTypes);\<newline>''"
    by (simp add: m2_def method_fields e1 builderOpState_def)
  have e3: "isEffective (methodBody m3)"
    by (simp add: m3_def method_fields e2)
  have b3: "body (methodBody m3)
              = body (methodBody m2) @ sizeAssert ''operands'' no vo ''parameters''"
    by (simp add: m3_def method_fields e2 sizeAssert_def)
  have e4: "isEffective (methodBody m4)"
    by (simp add: m4_def method_fields e3)
  have b4: "body (methodBody m4)
              = body (methodBody m3) @ ''  tblgen_state->addOperands(operands);\<newline>\<newline>''"
    by (simp add: m4_def method_fields e3 builderOpState_def)
  have e5: "isEffective (methodBody m5)"
    by (simp add: m5_def method_fields e4)
  have b5: "body (methodBody m5)
              = body (methodBody m4) @ ''  for (const auto& pair : attributes)\<newline>''
                  @ ''    tblgen_state->addAttribute(pair.first, pair.second);\<newline>''"
    by (simp add: m5_def method_fields e4 builderOpState_def)
  have sig: "methodSignature m5 = \<lparr>returnType = ''void'', methodName = ''build'', parameters = ps\<rparr>"
    and stat: "properties m5 = MP_Static" and decl: "\<not> isDeclOnly m5"
    by (simp_all add: m5_def m4_def m3_def m2_def m1_def m_def method_fields)
  have ps: "ps = ''Builder *, OperationState *tblgen_state, ''
           @ ''ArrayRef<Type> resultTypes, ArrayRef<Value *> operands, ''
           @ ''ArrayRef<NamedAttribute> attributes''"
    by (simp add: ps_def builderOpState_def)
  show ?thesis
    unfolding agg expectedAggregatedBuilder_def
  proof (rule OpMethod.equality)
    show "methodBody m5 = methodBody \<lparr>properties = MP_Static, isDeclOnly = False,
      methodSignature =
        \<lparr>returnType = ''void'', methodName = ''build'',
         parameters = ''Builder *, OperationState *tblgen_state, ''
           @ ''ArrayRef<Type> resultTypes, ArrayRef<Value *> operands, ''
           @ ''ArrayRef<NamedAttribute> attributes''\<rparr>,
      methodBody = \<lparr>isEffective = True,
        body =
          sizeAssert ''resultTypes''
            (getNumResults op - (if hasVariadicResult op then 1 else 0))
            (hasVariadicResult op) ''return types''
          @ ''  tblgen_state->addTypes(resultTypes);\<newline>''
          @ sizeAssert ''operands''
              (getNumOperands op - (if hasVariadicOperand op then 1 else 0))
              (hasVariadicOperand op) ''parameters''
          @ ''  tblgen_state->addOperands(operands);\<newline>\<newline>''
          @ ''  for (const auto& pair : attributes)\<newline>''
          @ ''    tblgen_state->addAttribute(pair.first, pair.second);\<newline>''\<rparr>\<rparr>"
      by (rule OpMethodBody.equality)
         (simp_all add: e5 b5 b4 b3 b2 b1 nr_def vr_def no_def vo_def)
  qed (simp_all add: sig stat decl ps)
qed


lemma customBuilders_length:
  "length (methods (customBuilders bs cls)) = length (methods cls) + length bs"
  by (induction bs arbitrary: cls) (simp_all add: Let_def newMethod_def)

lemma newMethod_exI: "newMethod c x = c' \<Longrightarrow> \<exists>m. c' = newMethod c m"
  by (rule exI[of _ x]) simp

lemma genStandaloneParamBuilder_adds_one:
  assumes "genStandaloneParamBuilder op c u a = Inr c'"
  shows "\<exists>m. c' = newMethod c m"
  using assms unfolding genStandaloneParamBuilder_def Let_def
  by (simp split: if_splits sum.splits prod.splits) (erule newMethod_exI)+




text \<open>
  C7, amended. When the builders are generated, the builder that follows the custom
  builders and the builder with stand-alone parameters is the aggregated one. Its body
  asserts the size of the array of result types against the number of fixed results
  (\<open>==\<close> without a variadic result, \<open>>=\<close> with a variadic result that follows fixed ones)
  and has no such assertion when the only result is variadic; it pushes the result
  types; it does the same for the operands; then it pushes the attribute pairs.
\<close>

theorem genBuilder_aggregated:
  assumes "genBuilder rcd op cls = Inr cls'"
  shows "methods cls' ! (length (methods cls) + numCustomBuilders rcd + 1)
           = expectedAggregatedBuilder op"
proof -
  let ?c0 = "case builders rcd of Some listInit \<Rightarrow> customBuilders listInit cls | None \<Rightarrow> cls"
  have len: "length (methods ?c0) = length (methods cls) + numCustomBuilders rcd"
    by (simp add: numCustomBuilders_def customBuilders_length split: option.splits)
  from assms obtain c1 where c1: "genStandaloneParamBuilder op ?c0 False False = Inr c1"
    by (auto simp: genBuilder_def Let_def split: sum.splits)
  from genStandaloneParamBuilder_adds_one[OF c1] obtain m where m: "c1 = newMethod ?c0 m"
    by blast
  let ?c2 = "newMethod c1 (aggregatedParamBuilder op)"
  have pos: "length (methods cls) + numCustomBuilders rcd + 1 = length (methods c1)"
    unfolding m by (simp add: len newMethod_def)
  have c2: "methods ?c2 ! length (methods c1) = expectedAggregatedBuilder op"
    by (simp add: newMethod_def aggregatedParamBuilder_expected)
  have "cls' = ?c2 \<or> (\<exists>m'. cls' = newMethod ?c2 m')"
  proof (cases "\<not> hasVariadicResult op \<and> (hasTrait op ''SameOperandsAndResultType''
            \<or> hasTrait op ''FirstAttrDerivedResultType'')")
    case True
    with assms c1 have "genStandaloneParamBuilder op ?c2
        (hasTrait op ''SameOperandsAndResultType'')
        (hasTrait op ''FirstAttrDerivedResultType'') = Inr cls'"
      by (simp add: genBuilder_def Let_def)
    from genStandaloneParamBuilder_adds_one[OF this] show ?thesis by blast
  next
    case False
    with assms c1 have "cls' = ?c2"
      by (auto simp: genBuilder_def Let_def)
    then show ?thesis by blast
  qed
  then have "methods cls' ! length (methods c1) = methods ?c2 ! length (methods c1)"
    by (auto simp: newMethod_def nth_append)
  with c2 pos show ?thesis by simp
qed

text \<open>
  C7, as stated, fails: the only result of the operation \<open>Call\<close> is variadic, and the
  body of its aggregated builder has no assertion on \<open>resultTypes.size()\<close>.
\<close>

theorem genBuilder_sole_variadic_result:
  \<open>hasVariadicResult callOp
   \<and> genBuilder plainRecord callOp (OpClass_new ''CallOp'')
       = Inr \<lparr>className = ''CallOp'', traits = [],
              methods =
                [\<lparr>properties = MP_Static, isDeclOnly = False,
                  methodSignature =
                    \<lparr>returnType = ''void'', methodName = ''build'',
                     parameters = ''Builder *, OperationState *tblgen_state, ''
                       @ ''ArrayRef<Type> outs, Value *callee, Value *tblgen_arg_1, ''
                       @ ''ArrayRef<Value *> args''\<rparr>,
                  methodBody = \<lparr>isEffective = True,
                    body = ''  tblgen_state->addTypes(outs);\<newline>''
                      @ ''  tblgen_state->addOperands({callee, tblgen_arg_1});\<newline>''
                      @ ''  tblgen_state->addOperands(args);\<newline>''\<rparr>\<rparr>,
                 \<lparr>properties = MP_Static, isDeclOnly = False,
                  methodSignature =
                    \<lparr>returnType = ''void'', methodName = ''build'',
                     parameters = ''Builder *, OperationState *tblgen_state, ''
                       @ ''ArrayRef<Type> resultTypes, ArrayRef<Value *> operands, ''
                       @ ''ArrayRef<NamedAttribute> attributes''\<rparr>,
                  methodBody = \<lparr>isEffective = True,
                    body = ''  tblgen_state->addTypes(resultTypes);\<newline>''
                      @ ''  assert(operands.size() >= 2u && "mismatched number of parameters");\<newline>''
                      @ ''  tblgen_state->addOperands(operands);\<newline>\<newline>''
                      @ ''  for (const auto& pair : attributes)\<newline>''
                      @ ''    tblgen_state->addAttribute(pair.first, pair.second);\<newline>''\<rparr>\<rparr>]\<rparr>\<close>
  by code_simp

theorem genBuilder_aggregated_witness:
  \<open>methods
     \<lparr>className = ''AddOp'', traits = [],
      methods =
        [\<lparr>properties = MP_Static, isDeclOnly = False,
          methodSignature =
            \<lparr>returnType = ''void'', methodName = ''build'',
             parameters = ''Builder *, OperationState *tblgen_state, ''
               @ ''Type resultType0, Value *lhs, Value *rhs''\<rparr>,
          methodBody = \<lparr>isEffective = True,
            body = ''  tblgen_state->addTypes({resultType0});\<newline>''
              @ ''  tblgen_state->addOperands({lhs, rhs});\<newline>''\<rparr>\<rparr>,
         \<lparr>properties = MP_Static, isDeclOnly = False,
          methodSignature =
            \<lparr>returnType = ''void'', methodName = ''build'',
             parameters = ''Builder *, OperationState *tblgen_state, ''
               @ ''ArrayRef<Type> resultTypes, ArrayRef<Value *> operands, ''
               @ ''ArrayRef<NamedAttribute> attributes''\<rparr>,
          methodBody = \<lparr>isEffective = True,
            body = ''  assert(resultTypes.size() == 1u && "mismatched number of return types");\<newline>''
              @ ''  tblgen_state->addTypes(resultTypes);\<newline>''
              @ ''  assert(operands.size() == 2u && "mismatched number of parameters");\<newline>''
              @ ''  tblgen_state->addOperands(operands);\<newline>\<newline>''
              @ ''  for (const auto& pair : attributes)\<newline>''
              @ ''    tblgen_state->addAttribute(pair.first, pair.second);\<newline>''\<rparr>\<rparr>]\<rparr>
     ! 1
   = expectedAggregatedBuilder addOp\<close>
proof -
  have h: \<open>genBuilder plainRecord addOp (OpClass_new ''AddOp'')
     = Inr \<lparr>className = ''AddOp'', traits = [],
      methods =
        [\<lparr>properties = MP_Static, isDeclOnly = False,
          methodSignature =
            \<lparr>returnType = ''void'', methodName = ''build'',
             parameters = ''Builder *, OperationState *tblgen_state, ''
               @ ''Type resultType0, Value *lhs, Value *rhs''\<rparr>,
          methodBody = \<lparr>isEffective = True,
            body = ''  tblgen_state->addTypes({resultType0});\<newline>''
              @ ''  tblgen_state->addOperands({lhs, rhs});\<newline>''\<rparr>\<rparr>,
         \<lparr>properties = MP_Static, isDeclOnly = False,
          methodSignature =
            \<lparr>returnType = ''void'', methodName = ''build'',
             parameters = ''Builder *, OperationState *tblgen_state, ''
               @ ''ArrayRef<Type> resultTypes, ArrayRef<Value *> operands, ''
               @ ''ArrayRef<NamedAttribute> attributes''\<rparr>,
          methodBody = \<lparr>isEffective = True,
            body = ''  assert(resultTypes.size() == 1u && "mismatched number of return types");\<newline>''
              @ ''  tblgen_state->addTypes(resultTypes);\<newline>''
              @ ''  assert(operands.size() == 2u && "mismatched number of parameters");\<newline>''
              @ ''  tblgen_state->addOperands(operands);\<newline>\<newline>''
              @ ''  for (const auto& pair : attributes)\<newline>''
              @ ''    tblgen_state->addAttribute(pair.first, pair.second);\<newline>''\<rparr>\<rparr>]\<rparr>\<close>
    by code_simp
  have n: "length (methods (OpClass_new ''AddOp'')) + numCustomBuilders plainRecord + 1 = 1"
    by (simp add: OpClass_new_def numCustomBuilders_def plainRecord_def)
  show ?thesis
    using genBuilder_aggregated [OF h] unfolding n .
qed


section \<open>Properties of the parser and printer passes\<close>

text \<open>
  What the two trimming functions leave: \<open>ltrim\<close> removes a margin of the given
  characters at the front and \<open>rtrim\<close> one at the back, up to the first character that is
  none of them.
\<close>

lemma ltrim_margin:
  "\<exists>l. s = l @ ltrim cs s \<and> set l \<subseteq> set cs \<and> (ltrim cs s = [] \<or> hd (ltrim cs s) \<notin> set cs)"
proof (intro exI conjI)
  show "s = takeWhile (\<lambda>c. c \<in> set cs) s @ ltrim cs s"
    by (simp add: ltrim_def)
  show "set (takeWhile (\<lambda>c. c \<in> set cs) s) \<subseteq> set cs"
    by (auto dest: set_takeWhileD)
  show "ltrim cs s = [] \<or> hd (ltrim cs s) \<notin> set cs"
    unfolding ltrim_def using hd_dropWhile[of "\<lambda>c. c \<in> set cs" s] by blast
qed

lemma rtrim_margin:
  "\<exists>r. s = rtrim cs s @ r \<and> set r \<subseteq> set cs \<and> (rtrim cs s = [] \<or> last (rtrim cs s) \<notin> set cs)"
proof (intro exI conjI)
  let ?P = "\<lambda>c. c \<in> set cs"
  show "s = rtrim cs s @ rev (takeWhile ?P (rev s))"
    unfolding rtrim_def rev_append[symmetric] by simp
  show "set (rev (takeWhile ?P (rev s))) \<subseteq> set cs"
    by (auto dest: set_takeWhileD)
  show "rtrim cs s = [] \<or> last (rtrim cs s) \<notin> set cs"
    unfolding rtrim_def using hd_dropWhile[of ?P "rev s"]
    by (cases "dropWhile ?P (rev s) = []") (simp_all add: last_rev)
qed

text \<open>
  C8, as stated, fails: for the parser code \<open>" return false;\n"\<close> the body of \<open>parse\<close> is
  \<open>"  return false;\n"\<close>, indented by two spaces and with the final newline kept, and not
  the trimmed text \<open>"return false;"\<close>.
\<close>

theorem genParser_keeps_margin:
  \<open>parser syntaxRecord = CodeInit '' return false;\<newline>''
   \<and> trimmed '' return false;\<newline>'' = ''return false;''
   \<and> methods (genParser syntaxRecord (OpClass_new ''NopOp''))
       = [\<lparr>properties = MP_Static, isDeclOnly = False,
           methodSignature =
             \<lparr>returnType = ''bool'', methodName = ''parse'',
              parameters = ''OpAsmParser *parser, OperationState *result''\<rparr>,
           methodBody = \<lparr>isEffective = True, body = ''  return false;\<newline>''\<rparr>\<rparr>]\<close>
  by code_simp

text \<open>
  C8, amended. When the record holds a parser, as a code or a string value, the pass adds
  a static method \<open>parse\<close> whose body is two spaces followed by that text without its
  leading white space and without its trailing blanks, tabs, vertical tabs, form feeds
  and carriage returns (a newline stops the trimming at the end). When the record
  holds a printer as a code value, the pass adds an instance method \<open>print\<close> whose body
  is made the same way. Otherwise the method is not added.
\<close>

theorem genParser_genPrinter_body:
  "(case parser rcd of
      UnsetInit \<Rightarrow> genParser rcd cls = cls
    | _ \<Rightarrow>
        genParser rcd cls
          = newMethod cls
              \<lparr>properties = MP_Static, isDeclOnly = False,
               methodSignature =
                 \<lparr>returnType = ''bool'', methodName = ''parse'',
                  parameters = ''OpAsmParser *parser, OperationState *result''\<rparr>,
               methodBody =
                 \<lparr>isEffective = True,
                  body = ''  '' @ rtrim rtrim_chars
                             (ltrim default_trim_chars (getValueAsString (parser rcd)))\<rparr>\<rparr>)
   \<and> (case printer rcd of
        CodeInit v \<Rightarrow>
          genPrinter rcd cls
            = newMethod cls
                \<lparr>properties = MP_None, isDeclOnly = False,
                 methodSignature =
                   \<lparr>returnType = ''void'', methodName = ''print'',
                    parameters = ''OpAsmPrinter *p''\<rparr>,
                 methodBody =
                   \<lparr>isEffective = True,
                    body = ''  '' @ rtrim rtrim_chars (ltrim default_trim_chars v)\<rparr>\<rparr>
      | _ \<Rightarrow> genPrinter rcd cls = cls)"
  by (simp add: genParser_def genPrinter_def hasStringAttribute_def Let_def stream_def
      OpMethod_new_def split: Init.splits)

theorem genParser_genPrinter_body_witness:
  \<open>genParser syntaxRecord (OpClass_new ''NopOp'')
     = \<lparr>className = ''NopOp'', traits = [],
        methods =
          [\<lparr>properties = MP_Static, isDeclOnly = False,
            methodSignature =
              \<lparr>returnType = ''bool'', methodName = ''parse'',
               parameters = ''OpAsmParser *parser, OperationState *result''\<rparr>,
            methodBody = \<lparr>isEffective = True, body = ''  return false;\<newline>''\<rparr>\<rparr>]\<rparr>
   \<and> genPrinter syntaxRecord (OpClass_new ''NopOp'')
     = \<lparr>className = ''NopOp'', traits = [],
        methods =
          [\<lparr>properties = MP_None, isDeclOnly = False,
            methodSignature =
              \<lparr>returnType = ''void'', methodName = ''print'',
               parameters = ''OpAsmPrinter *p''\<rparr>,
            methodBody = \<lparr>isEffective = True,
              body = ''  x; '' @ [CHR 0x0D, CHR 0x0A]\<rparr>\<rparr>]\<rparr>
   \<and> genParser plainRecord (OpClass_new ''NopOp'') = OpClass_new ''NopOp''
   \<and> genPrinter plainRecord (OpClass_new ''NopOp'') = OpClass_new ''NopOp''\<close>
  using genParser_genPrinter_body [of syntaxRecord "OpClass_new ''NopOp''"]
    genParser_genPrinter_body [of plainRecord "OpClass_new ''NopOp''"]
  by (simp add: syntaxRecord_def plainRecord_def OpClass_new_def newMethod_def
      getValueAsString_def ltrim_def rtrim_def default_trim_chars_def rtrim_chars_def)


end
